theory Spec2Isabelle
  imports Complex_Main "HOL-Library.Word"
begin

section \<open>Data model of \<^verbatim>\<open>src/controllers/api.ts\<close>\<close>

text \<open>
  The module keeps its state in one nedb datastore \<^verbatim>\<open>ds\<close> (holding consignment and media
  documents alike) and in three flat directories: \<^verbatim>\<open>tempDir\<close>, where multer stages an
  upload under a generated name, \<^verbatim>\<open>consignmentDir\<close> and \<^verbatim>\<open>mediaDir\<close>. A directory is
  modelled by its content, a map from file names to bytes.
\<close>

type_synonym bytes = "8 word list"

type_synonym dir = "string \<rightharpoonup> bytes"

text \<open>
  \<^verbatim>\<open>interface Consignment\<close>. The three optional booleans are absent (\<open>None\<close>) on a fresh
  document. The datastore's generated \<^verbatim>\<open>_id\<close> is never read by the module and is left out.
\<close>

record Consignment =
  filename :: string
  blindedutxo :: string
  ack :: "bool option"
  nack :: "bool option"
  responded :: "bool option"

text \<open>\<^verbatim>\<open>interface Media\<close>; its \<^verbatim>\<open>filename\<close> field is named \<open>media_filename\<close> here.\<close>

record Media =
  media_filename :: string
  attachment_id :: string

datatype doc = ConsignmentDoc Consignment | MediaDoc Media

record state =
  ds :: "doc list"
  tempDir :: dir
  consignmentDir :: dir
  mediaDir :: dir

text \<open>
  The error classes imported from \<^verbatim>\<open>../errors\<close> (their \<^verbatim>\<open>jsonRpcParams\<close> payload is dropped),
  the exception of a failing \<^verbatim>\<open>fs\<close> call, the method-not-found answer of the JSON-RPC
  library, and the two exceptions that the \<^verbatim>\<open>/json-rpc\<close> handler can throw before it calls
  a method.
\<close>

datatype error =
    CannotChangeAck
  | CannotChangeUploadedFile
  | InvalidAck
  | InvalidAttachmentID
  | InvalidBlindedUTXO
  | MissingAck
  | MissingAttachmentID
  | MissingBlindedUTXO
  | MissingFile
  | NotFoundConsignment
  | NotFoundMedia
  | FsError
  | MethodNotFound
  | SyntaxError
  | TypeError

text \<open>
  JSON values, as \<^verbatim>\<open>JSON.parse\<close> yields them. An object is the list of its entries; a key is
  looked up with \<open>map_of\<close>.
\<close>

datatype json =
    JNull
  | JBool bool
  | JNumber real
  | JString string
  | JArray "json list"
  | JObject "(string \<times> json) list"

section \<open>Shape tests and parameter extraction\<close>

fun isDictionary :: "json option \<Rightarrow> bool" where
  "isDictionary (Some (JObject entries)) = True"
| "isDictionary _ = False"

text \<open>JavaScript's \<^verbatim>\<open>!v\<close>: the falsy values are null, false, 0 and the empty string.\<close>

fun falsy :: "json \<Rightarrow> bool" where
  "falsy JNull = True"
| "falsy (JBool b) = (\<not> b)"
| "falsy (JNumber x) = (x = 0)"
| "falsy (JString s) = (s = [])"
| "falsy (JArray xs) = False"
| "falsy (JObject entries) = False"

text \<open>
  The entries of a dictionary; \<^verbatim>\<open>key in jsonRpcParams\<close> and \<^verbatim>\<open>jsonRpcParams[key]\<close> are the
  lookup \<open>map_of (entries_of jsonRpcParams) key\<close>. The getters test \<^verbatim>\<open>isBoolean\<close> and
  \<^verbatim>\<open>isString\<close> by a case distinction on the value.
\<close>

fun entries_of :: "json option \<Rightarrow> (string \<times> json) list" where
  "entries_of (Some (JObject entries)) = entries"
| "entries_of _ = []"

definition getAckParam :: "json option \<Rightarrow> error + bool" where
  "getAckParam jsonRpcParams =
     (if isDictionary jsonRpcParams then
        (case map_of (entries_of jsonRpcParams) ''ack'' of
           None \<Rightarrow> Inl MissingAck
         | Some a \<Rightarrow>
             (case a of JBool b \<Rightarrow> Inr b | _ \<Rightarrow> Inl InvalidAck))
      else Inl MissingAck)"

definition getAttachmentIDParam :: "json option \<Rightarrow> error + string" where
  "getAttachmentIDParam jsonRpcParams =
     (if isDictionary jsonRpcParams then
        (case map_of (entries_of jsonRpcParams) ''attachment_id'' of
           None \<Rightarrow> Inl MissingAttachmentID
         | Some attachmentID \<Rightarrow>
             (if falsy attachmentID then Inl InvalidAttachmentID
              else (case attachmentID of
                      JString s \<Rightarrow> Inr s
                    | _ \<Rightarrow> Inl InvalidAttachmentID)))
      else Inl MissingAttachmentID)"

definition getBlindedUTXOParam :: "json option \<Rightarrow> error + string" where
  "getBlindedUTXOParam jsonRpcParams =
     (if isDictionary jsonRpcParams then
        (case map_of (entries_of jsonRpcParams) ''blinded_utxo'' of
           None \<Rightarrow> Inl MissingBlindedUTXO
         | Some blindedUTXO \<Rightarrow>
             (if falsy blindedUTXO then Inl InvalidBlindedUTXO
              else (case blindedUTXO of
                      JString s \<Rightarrow> Inr s
                    | _ \<Rightarrow> Inl InvalidBlindedUTXO)))
      else Inl MissingBlindedUTXO)"

section \<open>The datastore\<close>

text \<open>
  \<^verbatim>\<open>ds.findOne({ blindedutxo: k })\<close>: the first document whose \<^verbatim>\<open>blindedutxo\<close> field is
  \<open>k\<close>. A media document has no such field and never matches.
\<close>

fun findOne_blindedutxo :: "string \<Rightarrow> doc list \<Rightarrow> Consignment option" where
  "findOne_blindedutxo k [] = None"
| "findOne_blindedutxo k (ConsignmentDoc c # docs) =
     (if blindedutxo c = k then Some c else findOne_blindedutxo k docs)"
| "findOne_blindedutxo k (MediaDoc m # docs) = findOne_blindedutxo k docs"

fun findOne_attachment_id :: "string \<Rightarrow> doc list \<Rightarrow> Media option" where
  "findOne_attachment_id k [] = None"
| "findOne_attachment_id k (MediaDoc m # docs) =
     (if attachment_id m = k then Some m else findOne_attachment_id k docs)"
| "findOne_attachment_id k (ConsignmentDoc c # docs) = findOne_attachment_id k docs"

text \<open>
  \<^verbatim>\<open>ds.update({ blindedutxo: k }, { $set: ... }, { multi: false })\<close>: the \<^verbatim>\<open>$set\<close>, given
  as a function on the document, is applied to the first match only.
\<close>

fun update_blindedutxo :: "string \<Rightarrow> (Consignment \<Rightarrow> Consignment) \<Rightarrow> doc list \<Rightarrow> doc list" where
  "update_blindedutxo k f [] = []"
| "update_blindedutxo k f (ConsignmentDoc c # docs) =
     (if blindedutxo c = k then ConsignmentDoc (f c) # docs
      else ConsignmentDoc c # update_blindedutxo k f docs)"
| "update_blindedutxo k f (MediaDoc m # docs) = MediaDoc m # update_blindedutxo k f docs"

text \<open>\<^verbatim>\<open>ds.insert(doc)\<close> appends the document.\<close>

definition insert_doc :: "doc \<Rightarrow> doc list \<Rightarrow> doc list" where
  "insert_doc d docs = docs @ [d]"

definition getConsignment :: "json option \<Rightarrow> state \<Rightarrow> error + Consignment" where
  "getConsignment jsonRpcParams s =
     (case getBlindedUTXOParam jsonRpcParams of
        Inl e \<Rightarrow> Inl e
      | Inr blindedUTXO \<Rightarrow>
          (case findOne_blindedutxo blindedUTXO (ds s) of
             None \<Rightarrow> Inl NotFoundConsignment
           | Some consignment \<Rightarrow> Inr consignment))"

section \<open>The acknowledgment methods\<close>

definition ack_get :: "json option \<Rightarrow> state \<Rightarrow> (error + bool option) \<times> state" where
  "ack_get jsonRpcParams s =
     (case getConsignment jsonRpcParams s of
        Inl e \<Rightarrow> (Inl e, s)
      | Inr consignment \<Rightarrow> (Inr (ack consignment), s))"

definition ack_post :: "json option \<Rightarrow> state \<Rightarrow> (error + bool) \<times> state" where
  "ack_post jsonRpcParams s =
     (case getConsignment jsonRpcParams s of
        Inl e \<Rightarrow> (Inl e, s)
      | Inr consignment \<Rightarrow>
          (case getAckParam jsonRpcParams of
             Inl e \<Rightarrow> (Inl e, s)
           | Inr a \<Rightarrow>
               (case ack consignment of
                  Some prev \<Rightarrow>
                    (if prev = a then (Inr False, s) else (Inl CannotChangeAck, s))
                | None \<Rightarrow>
                    (Inr True,
                     s\<lparr>ds := update_blindedutxo (blindedutxo consignment)
                                (\<lambda>c. c\<lparr>ack := Some a\<rparr>) (ds s)\<rparr>))))"

section \<open>The file system\<close>

definition existsSync :: "dir \<Rightarrow> string \<Rightarrow> bool" where
  "existsSync d f = (case d f of None \<Rightarrow> False | Some content \<Rightarrow> True)"

text \<open>\<^verbatim>\<open>fs.readFileSync\<close> and \<^verbatim>\<open>fs.unlinkSync\<close> throw on a file that does not exist.\<close>

definition readFileSync :: "dir \<Rightarrow> string \<Rightarrow> error + bytes" where
  "readFileSync d f = (case d f of None \<Rightarrow> Inl FsError | Some content \<Rightarrow> Inr content)"

definition unlinkSync :: "dir \<Rightarrow> string \<Rightarrow> error + dir" where
  "unlinkSync d f = (case d f of None \<Rightarrow> Inl FsError | Some content \<Rightarrow> Inr (d(f := None)))"

text \<open>
  \<^verbatim>\<open>fs.renameSync(path.join(src, f), path.join(dst, g))\<close> between two different
  directories: it throws when the source is missing, and replaces the destination otherwise.
\<close>

definition renameSync :: "dir \<Rightarrow> string \<Rightarrow> dir \<Rightarrow> string \<Rightarrow> error + (dir \<times> dir)" where
  "renameSync src f dst g =
     (case src f of
        None \<Rightarrow> Inl FsError
      | Some content \<Rightarrow> Inr (src(f := None), dst(g \<mapsto> content)))"

text \<open>
  Modelled from the spec: \<^verbatim>\<open>genHashFromFile\<close> is imported from \<^verbatim>\<open>../util\<close>, which is not
  part of the sources at hand. The spec describes it as a deterministic digest of the
  staged bytes that names the content; the digest function is the parameter \<open>hash\<close>, and
  reading a file that is not there fails like any other \<^verbatim>\<open>fs\<close> read.
\<close>

definition genHashFromFile :: "(bytes \<Rightarrow> string) \<Rightarrow> dir \<Rightarrow> string \<Rightarrow> error + string" where
  "genHashFromFile hash d f =
     (case d f of None \<Rightarrow> Inl FsError | Some content \<Rightarrow> Inr (hash content))"

text \<open>
  The cleanup that the \<^verbatim>\<open>catch\<close> blocks of the upload methods and the end of the
  \<^verbatim>\<open>/json-rpc\<close> route share: \<^verbatim>\<open>if (file) { if (fs.existsSync(f)) fs.unlinkSync(f) }\<close>.
  The argument is the \<^verbatim>\<open>filename\<close> of the multer file, if there is one.
\<close>

definition unlink_unhandled :: "string option \<Rightarrow> state \<Rightarrow> state" where
  "unlink_unhandled file s =
     (case file of
        None \<Rightarrow> s
      | Some f \<Rightarrow>
          (if existsSync (tempDir s) f then
             (case unlinkSync (tempDir s) f of
                Inl e \<Rightarrow> s
              | Inr t \<Rightarrow> s\<lparr>tempDir := t\<rparr>)
           else s))"

section \<open>Transport encoding\<close>

text \<open>
  \<^verbatim>\<open>Buffer.toString("base64")\<close>: three bytes become four characters of the standard
  alphabet, and a last group of one or two bytes is padded with \<^verbatim>\<open>=\<close>.
\<close>

definition base64_chars :: string where
  "base64_chars = ''ABCDEFGHIJKLMNOPQRSTUVWXYZabcdefghijklmnopqrstuvwxyz0123456789+/''"

definition sextet :: "nat \<Rightarrow> char" where
  "sextet i = base64_chars ! i"

fun base64 :: "bytes \<Rightarrow> string" where
  "base64 [] = []"
| "base64 [a] =
     [sextet (unat a div 4), sextet (unat a mod 4 * 16), CHR ''='', CHR ''='']"
| "base64 [a, b] =
     [sextet (unat a div 4), sextet (unat a mod 4 * 16 + unat b div 16),
      sextet (unat b mod 16 * 4), CHR ''='']"
| "base64 (a # b # c # rest) =
     [sextet (unat a div 4), sextet (unat a mod 4 * 16 + unat b div 16),
      sextet (unat b mod 16 * 4 + unat c div 64), sextet (unat c mod 64)] @ base64 rest"

text \<open>
  The receiving side's decoder, needed to say what a fetched string stands for. A character
  outside the alphabet or a length that is no multiple of four gives \<open>None\<close>.
\<close>

fun index_of :: "'a \<Rightarrow> 'a list \<Rightarrow> nat option" where
  "index_of x [] = None"
| "index_of x (y # ys) = (if x = y then Some 0 else map_option Suc (index_of x ys))"

definition unsextet :: "char \<Rightarrow> nat option" where
  "unsextet c = index_of c base64_chars"

fun base64_decode :: "string \<Rightarrow> bytes option" where
  "base64_decode [] = Some []"
| "base64_decode (c1 # c2 # c3 # c4 # rest) =
     (case (unsextet c1, unsextet c2) of
        (Some i1, Some i2) \<Rightarrow>
          (if c3 = CHR ''='' then
             (if c4 = CHR ''='' \<and> rest = [] then Some [of_nat (i1 * 4 + i2 div 16)]
              else None)
           else
             (case unsextet c3 of
                None \<Rightarrow> None
              | Some i3 \<Rightarrow>
                  (if c4 = CHR ''='' then
                     (if rest = [] then
                        Some [of_nat (i1 * 4 + i2 div 16), of_nat (i2 mod 16 * 16 + i3 div 4)]
                      else None)
                   else
                     (case unsextet c4 of
                        None \<Rightarrow> None
                      | Some i4 \<Rightarrow>
                          map_option
                            (\<lambda>bs. of_nat (i1 * 4 + i2 div 16)
                                 # of_nat (i2 mod 16 * 16 + i3 div 4)
                                 # of_nat (i3 mod 4 * 64 + i4) # bs)
                            (base64_decode rest)))))
      | _ \<Rightarrow> None)"
| "base64_decode _ = None"

section \<open>The JSON-RPC methods\<close>

definition PROTOCOL_VERSION :: string where
  "PROTOCOL_VERSION = ''0.1''"

record ServerInfo =
  version :: string
  protocol_version :: string
  uptime :: int

text \<open>\<^verbatim>\<open>Math.trunc\<close>: rounding towards zero.\<close>

definition Math_trunc :: "real \<Rightarrow> int" where
  "Math_trunc x = (if x < 0 then \<lceil>x\<rceil> else \<lfloor>x\<rfloor>)"

text \<open>
  \<^verbatim>\<open>server.info\<close>. \<^verbatim>\<open>APP_VERSION\<close> (from \<^verbatim>\<open>../version\<close>) and the value of
  \<^verbatim>\<open>process.uptime()\<close> at the call are parameters.
\<close>

definition server_info :: "string \<Rightarrow> real \<Rightarrow> ServerInfo" where
  "server_info APP_VERSION process_uptime =
     \<lparr>version = APP_VERSION, protocol_version = PROTOCOL_VERSION,
      uptime = Math_trunc process_uptime\<rparr>"

definition consignment_get :: "json option \<Rightarrow> state \<Rightarrow> (error + string) \<times> state" where
  "consignment_get jsonRpcParams s =
     (case getConsignment jsonRpcParams s of
        Inl e \<Rightarrow> (Inl e, s)
      | Inr consignment \<Rightarrow>
          (case readFileSync (consignmentDir s) (filename consignment) of
             Inl e \<Rightarrow> (Inl e, s)
           | Inr fileBuffer \<Rightarrow> (Inr (base64 fileBuffer), s)))"

text \<open>
  \<^verbatim>\<open>consignment.post\<close>: first the \<^verbatim>\<open>try\<close> block, then the method with its \<^verbatim>\<open>catch\<close>,
  which removes the staged file if it is still there and rethrows. \<open>file\<close> is the
  \<^verbatim>\<open>filename\<close> of \<^verbatim>\<open>serverParams.file\<close>, the only field of it that is read.
\<close>

definition consignment_post_try ::
  "(bytes \<Rightarrow> string) \<Rightarrow> json option \<Rightarrow> string option \<Rightarrow> state \<Rightarrow> (error + bool) \<times> state" where
  "consignment_post_try hash jsonRpcParams file s =
     (case getBlindedUTXOParam jsonRpcParams of
        Inl e \<Rightarrow> (Inl e, s)
      | Inr blindedUTXO \<Rightarrow>
          (case file of
             None \<Rightarrow> (Inl MissingFile, s)
           | Some f \<Rightarrow>
               (case genHashFromFile hash (tempDir s) f of
                  Inl e \<Rightarrow> (Inl e, s)
                | Inr fileHash \<Rightarrow>
                    (case findOne_blindedutxo blindedUTXO (ds s) of
                       Some prevFile \<Rightarrow>
                         (if filename prevFile = fileHash then
                            (case unlinkSync (tempDir s) f of
                               Inl e \<Rightarrow> (Inl e, s)
                             | Inr t \<Rightarrow> (Inr False, s\<lparr>tempDir := t\<rparr>))
                          else (Inl CannotChangeUploadedFile, s))
                     | None \<Rightarrow>
                         (case renameSync (tempDir s) f (consignmentDir s) fileHash of
                            Inl e \<Rightarrow> (Inl e, s)
                          | Inr (t, d) \<Rightarrow>
                              (Inr True,
                               s\<lparr>ds := insert_doc
                                         (ConsignmentDoc
                                            \<lparr>filename = fileHash, blindedutxo = blindedUTXO,
                                             ack = None, nack = None, responded = None\<rparr>)
                                         (ds s),
                                 tempDir := t, consignmentDir := d\<rparr>))))))"

definition consignment_post ::
  "(bytes \<Rightarrow> string) \<Rightarrow> json option \<Rightarrow> string option \<Rightarrow> state \<Rightarrow> (error + bool) \<times> state" where
  "consignment_post hash jsonRpcParams file s =
     (case consignment_post_try hash jsonRpcParams file s of
        (Inl e, s') \<Rightarrow> (Inl e, unlink_unhandled file s')
      | (Inr r, s') \<Rightarrow> (Inr r, s'))"

definition media_get :: "json option \<Rightarrow> state \<Rightarrow> (error + string) \<times> state" where
  "media_get jsonRpcParams s =
     (case getAttachmentIDParam jsonRpcParams of
        Inl e \<Rightarrow> (Inl e, s)
      | Inr attachmentID \<Rightarrow>
          (case findOne_attachment_id attachmentID (ds s) of
             None \<Rightarrow> (Inl NotFoundMedia, s)
           | Some media \<Rightarrow>
               (case readFileSync (mediaDir s) (media_filename media) of
                  Inl e \<Rightarrow> (Inl e, s)
                | Inr fileBuffer \<Rightarrow> (Inr (base64 fileBuffer), s))))"

definition media_post_try ::
  "(bytes \<Rightarrow> string) \<Rightarrow> json option \<Rightarrow> string option \<Rightarrow> state \<Rightarrow> (error + bool) \<times> state" where
  "media_post_try hash jsonRpcParams file s =
     (case getAttachmentIDParam jsonRpcParams of
        Inl e \<Rightarrow> (Inl e, s)
      | Inr attachmentID \<Rightarrow>
          (case file of
             None \<Rightarrow> (Inl MissingFile, s)
           | Some f \<Rightarrow>
               (case genHashFromFile hash (tempDir s) f of
                  Inl e \<Rightarrow> (Inl e, s)
                | Inr fileHash \<Rightarrow>
                    (case findOne_attachment_id attachmentID (ds s) of
                       Some prevFile \<Rightarrow>
                         (if media_filename prevFile = fileHash then
                            (case unlinkSync (tempDir s) f of
                               Inl e \<Rightarrow> (Inl e, s)
                             | Inr t \<Rightarrow> (Inr False, s\<lparr>tempDir := t\<rparr>))
                          else (Inl CannotChangeUploadedFile, s))
                     | None \<Rightarrow>
                         (case renameSync (tempDir s) f (mediaDir s) fileHash of
                            Inl e \<Rightarrow> (Inl e, s)
                          | Inr (t, d) \<Rightarrow>
                              (Inr True,
                               s\<lparr>ds := insert_doc
                                         (MediaDoc
                                            \<lparr>media_filename = fileHash,
                                             attachment_id = attachmentID\<rparr>)
                                         (ds s),
                                 tempDir := t, mediaDir := d\<rparr>))))))"

definition media_post ::
  "(bytes \<Rightarrow> string) \<Rightarrow> json option \<Rightarrow> string option \<Rightarrow> state \<Rightarrow> (error + bool) \<times> state" where
  "media_post hash jsonRpcParams file s =
     (case media_post_try hash jsonRpcParams file s of
        (Inl e, s') \<Rightarrow> (Inl e, unlink_unhandled file s')
      | (Inr r, s') \<Rightarrow> (Inr r, s'))"

section \<open>The \<^verbatim>\<open>/json-rpc\<close> route\<close>

datatype rpc_result =
    InfoResult ServerInfo
  | StringResult string
  | BoolResult bool
  | AckResult "bool option"

text \<open>
  A JSON-RPC request, as far as the route reads it: \<open>params\<close> is the field as the body parser
  delivers it, absent, a JSON value, or (from a multipart form) a string that holds JSON text.
  \<open>req_id = None\<close> is a notification.
\<close>

record JSONRPCRequest =
  rpc_method :: string
  params :: "json option"
  req_id :: "json option"

text \<open>The method table built by the \<^verbatim>\<open>addMethod\<close> calls.\<close>

definition call_method ::
  "(bytes \<Rightarrow> string) \<Rightarrow> string \<Rightarrow> real \<Rightarrow> string \<Rightarrow> json option \<Rightarrow> string option \<Rightarrow> state
   \<Rightarrow> (error + rpc_result) \<times> state" where
  "call_method hash APP_VERSION process_uptime name jsonRpcParams file s =
     (if name = ''server.info'' then
        (Inr (InfoResult (server_info APP_VERSION process_uptime)), s)
      else if name = ''consignment.get'' then
        (case consignment_get jsonRpcParams s of (r, s') \<Rightarrow> (map_sum id StringResult r, s'))
      else if name = ''consignment.post'' then
        (case consignment_post hash jsonRpcParams file s of
           (r, s') \<Rightarrow> (map_sum id BoolResult r, s'))
      else if name = ''media.get'' then
        (case media_get jsonRpcParams s of (r, s') \<Rightarrow> (map_sum id StringResult r, s'))
      else if name = ''media.post'' then
        (case media_post hash jsonRpcParams file s of
           (r, s') \<Rightarrow> (map_sum id BoolResult r, s'))
      else if name = ''ack.get'' then
        (case ack_get jsonRpcParams s of (r, s') \<Rightarrow> (map_sum id AckResult r, s'))
      else if name = ''ack.post'' then
        (case ack_post jsonRpcParams s of (r, s') \<Rightarrow> (map_sum id BoolResult r, s'))
      else (Inl MethodNotFound, s))"

text \<open>
  \<^verbatim>\<open>jsonRpcServer.receive\<close> of the json-rpc-2.0 library: the method runs, and the answer
  is dropped when the request has no id.
\<close>

definition receive ::
  "(bytes \<Rightarrow> string) \<Rightarrow> string \<Rightarrow> real \<Rightarrow> JSONRPCRequest \<Rightarrow> string option \<Rightarrow> state
   \<Rightarrow> (error + rpc_result) option \<times> state" where
  "receive hash APP_VERSION process_uptime req file s =
     (case call_method hash APP_VERSION process_uptime (rpc_method req) (params req) file s of
        (r, s') \<Rightarrow> (case req_id req of None \<Rightarrow> (None, s') | Some i \<Rightarrow> (Some r, s')))"

text \<open>
  \<^verbatim>\<open>upload.single(field)\<close>: multer writes the uploaded part, if the request has one, into
  \<^verbatim>\<open>tempDir\<close> under a name it generates, and hands that name on. The upload is the pair of
  the generated name and the content.
\<close>

definition upload_single :: "(string \<times> bytes) option \<Rightarrow> state \<Rightarrow> string option \<times> state" where
  "upload_single part s =
     (case part of
        None \<Rightarrow> (None, s)
      | Some (name, content) \<Rightarrow> (Some name, s\<lparr>tempDir := (tempDir s)(name \<mapsto> content)\<rparr>))"

text \<open>
  The handler of the route begins with the request log (api.ts 342-355). It builds the log
  text of the parameters with \<^verbatim>\<open>joinEntries\<close>, which writes every entry as
  \<^verbatim>\<open>`${k}: ${value}`\<close>; a string value is shortened by \<^verbatim>\<open>truncateText\<close> first. The text
  goes to the logger only and is not modelled, but the conversion of \<^verbatim>\<open>value\<close> to a string
  can throw a \<^verbatim>\<open>TypeError\<close>: an object that has a property \<^verbatim>\<open>toString\<close> of its own cannot be
  converted, since no value that comes from JSON is callable, and an array is converted by
  joining the conversions of its elements, \<^verbatim>\<open>null\<close> counting as the empty string.
\<close>

fun template_throws :: "json \<Rightarrow> bool" where
  "template_throws (JObject entries) =
     (case map_of entries ''toString'' of None \<Rightarrow> False | Some v \<Rightarrow> True)"
| "template_throws (JArray xs) = list_ex template_throws xs"
| "template_throws JNull = False"
| "template_throws (JBool b) = False"
| "template_throws (JNumber x) = False"
| "template_throws (JString t) = False"

definition joinEntries_throws :: "(string \<times> json) list \<Rightarrow> bool" where
  "joinEntries_throws entries = list_ex (\<lambda>(k, v). template_throws v) entries"

text \<open>
  The first lines of the handler: unless \<^verbatim>\<open>params\<close> is \<^verbatim>\<open>null\<close>, a string is replaced by
  what \<^verbatim>\<open>JSON.parse\<close> makes of it, and a dictionary is written to the log. The result is the
  parameters that are handed to the method, or the exception thrown. \<^verbatim>\<open>JSON.parse\<close> belongs
  to the runtime and is a parameter: \<open>None\<close> stands for its \<^verbatim>\<open>SyntaxError\<close>.
\<close>

definition log_params :: "json option \<Rightarrow> error + json option" where
  "log_params jsonRpcParams =
     (if isDictionary jsonRpcParams then
        (if joinEntries_throws (entries_of jsonRpcParams) then Inl TypeError
         else Inr jsonRpcParams)
      else Inr jsonRpcParams)"

definition parse_and_log_params ::
  "(string \<Rightarrow> json option) \<Rightarrow> json option \<Rightarrow> error + json option" where
  "parse_and_log_params JSON_parse received =
     (case received of
        None \<Rightarrow> log_params received
      | Some v \<Rightarrow>
          (case v of
             JNull \<Rightarrow> Inr received
           | JString text \<Rightarrow>
               (case JSON_parse text of
                  None \<Rightarrow> Inl SyntaxError
                | Some parsed \<Rightarrow> log_params (Some parsed))
           | _ \<Rightarrow> log_params received))"

text \<open>
  The route: multer stages the file part, the handler parses and logs the parameters, calls
  the method, sends the answer and removes the staged file if it is still there. The handler
  is an \<^verbatim>\<open>async\<close> function without a \<^verbatim>\<open>try\<close>: when its first lines throw, nothing is sent
  and nothing is cleaned up (\<open>NoResponse\<close>). The lines that log the answer cannot throw on the
  results of the seven methods.
\<close>

datatype rpc_response = JsonResult rpc_result | JsonError error | NoContent | NoResponse

definition post_json_rpc ::
  "(string \<Rightarrow> json option) \<Rightarrow> (bytes \<Rightarrow> string) \<Rightarrow> string \<Rightarrow> real \<Rightarrow> JSONRPCRequest
   \<Rightarrow> (string \<times> bytes) option \<Rightarrow> state \<Rightarrow> rpc_response \<times> state" where
  "post_json_rpc JSON_parse hash APP_VERSION process_uptime req part s =
     (case upload_single part s of
        (file, s1) \<Rightarrow>
          (case parse_and_log_params JSON_parse (params req) of
             Inl e \<Rightarrow> (NoResponse, s1)
           | Inr jsonRpcParams \<Rightarrow>
               (case receive hash APP_VERSION process_uptime (req\<lparr>params := jsonRpcParams\<rparr>)
                       file s1 of
                  (jsonRPCResponse, s2) \<Rightarrow>
                    ((case jsonRPCResponse of
                        None \<Rightarrow> NoContent
                      | Some (Inl e) \<Rightarrow> JsonError e
                      | Some (Inr r) \<Rightarrow> JsonResult r),
                     unlink_unhandled file s2))))"

section \<open>The REST routes\<close>

record rest_response =
  status :: nat
  body :: "(string \<times> json) list"

text \<open>
  A text field of the request body is absent (\<open>None\<close>) or a string;
  \<^verbatim>\<open>!req.body.blindedutxo\<close> holds when it is absent or empty.
\<close>

definition field_missing :: "string option \<Rightarrow> bool" where
  "field_missing v = (case v of None \<Rightarrow> True | Some k \<Rightarrow> k = [])"

definition field_value :: "string option \<Rightarrow> string" where
  "field_value v = (case v of None \<Rightarrow> [] | Some k \<Rightarrow> k)"

definition failure :: "nat \<Rightarrow> string \<Rightarrow> rest_response" where
  "failure code msg = \<lparr>status = code, body = [(''success'', JBool False), (''error'', JString msg)]\<rparr>"

definition server_error :: rest_response where
  "server_error = \<lparr>status = 500, body = [(''success'', JBool False)]\<rparr>"

definition success :: rest_response where
  "success = \<lparr>status = 200, body = [(''success'', JBool True)]\<rparr>"

definition get_consignment :: "string \<Rightarrow> state \<Rightarrow> rest_response \<times> state" where
  "get_consignment param s =
     (if param \<noteq> [] then
        (case findOne_blindedutxo param (ds s) of
           None \<Rightarrow> (failure 404 ''No consignment found!'', s)
         | Some c \<Rightarrow>
             (case readFileSync (consignmentDir s) (filename c) of
                Inl e \<Rightarrow> (server_error, s)
              | Inr file_buffer \<Rightarrow>
                  (\<lparr>status = 200,
                    body = [(''success'', JBool True),
                            (''consignment'', JString (base64 file_buffer))]\<rparr>, s)))
      else (failure 400 ''blindedutxo missing!'', s))"

text \<open>
  The handler of \<^verbatim>\<open>POST /consignment\<close>, after multer. \<open>file\<close> is the name of
  \<^verbatim>\<open>req.file\<close>.
\<close>

definition post_consignment_handler ::
  "(bytes \<Rightarrow> string) \<Rightarrow> string option \<Rightarrow> string option \<Rightarrow> state \<Rightarrow> rest_response \<times> state" where
  "post_consignment_handler hash body_blindedutxo file s =
     (if field_missing body_blindedutxo then (failure 400 ''blindedutxo missing!'', s)
      else
        (case file of
           None \<Rightarrow> (failure 400 ''Consignment file is missing!'', s)
         | Some f \<Rightarrow>
             (case genHashFromFile hash (tempDir s) f of
                Inl e \<Rightarrow> (server_error, s)
              | Inr fileHash \<Rightarrow>
                  (case findOne_blindedutxo (field_value body_blindedutxo) (ds s) of
                     Some prevConsignment \<Rightarrow>
                       (if filename prevConsignment = fileHash then (success, s)
                        else (failure 403 ''Cannot change uploaded file!'', s))
                   | None \<Rightarrow>
                       (case renameSync (tempDir s) f (consignmentDir s) fileHash of
                          Inl e \<Rightarrow> (server_error, s)
                        | Inr (t, d) \<Rightarrow>
                            (let s1 = s\<lparr>ds := insert_doc
                                               (ConsignmentDoc
                                                  \<lparr>filename = fileHash,
                                                   blindedutxo = field_value body_blindedutxo,
                                                   ack = None, nack = None, responded = None\<rparr>)
                                               (ds s),
                                       tempDir := t, consignmentDir := d\<rparr>
                             in if existsSync (tempDir s1) f then
                                  (case unlinkSync (tempDir s1) f of
                                     Inl e \<Rightarrow> (server_error, s1)
                                   | Inr t' \<Rightarrow> (success, s1\<lparr>tempDir := t'\<rparr>))
                                else (success, s1)))))))"

definition post_consignment ::
  "(bytes \<Rightarrow> string) \<Rightarrow> string option \<Rightarrow> (string \<times> bytes) option \<Rightarrow> state
   \<Rightarrow> rest_response \<times> state" where
  "post_consignment hash body_blindedutxo part s =
     (case upload_single part s of
        (file, s1) \<Rightarrow> post_consignment_handler hash body_blindedutxo file s1)"

definition get_media :: "string \<Rightarrow> state \<Rightarrow> rest_response \<times> state" where
  "get_media param s =
     (if param \<noteq> [] then
        (case findOne_attachment_id param (ds s) of
           None \<Rightarrow> (failure 404 ''No media found!'', s)
         | Some media \<Rightarrow>
             (case readFileSync (mediaDir s) (media_filename media) of
                Inl e \<Rightarrow> (server_error, s)
              | Inr file_buffer \<Rightarrow>
                  (\<lparr>status = 200,
                    body = [(''success'', JBool True),
                            (''media'', JString (base64 file_buffer))]\<rparr>, s)))
      else (failure 400 ''attachment_id missing!'', s))"

definition post_media_handler ::
  "(bytes \<Rightarrow> string) \<Rightarrow> string option \<Rightarrow> string option \<Rightarrow> state \<Rightarrow> rest_response \<times> state" where
  "post_media_handler hash body_attachment_id file s =
     (if field_missing body_attachment_id then (failure 400 ''attachment_id missing!'', s)
      else
        (case file of
           None \<Rightarrow> (failure 400 ''Media file is missing!'', s)
         | Some f \<Rightarrow>
             (case genHashFromFile hash (tempDir s) f of
                Inl e \<Rightarrow> (server_error, s)
              | Inr fileHash \<Rightarrow>
                  (case findOne_attachment_id (field_value body_attachment_id) (ds s) of
                     Some prevMedia \<Rightarrow>
                       (if media_filename prevMedia = fileHash then (success, s)
                        else (failure 403 ''Cannot change uploaded file!'', s))
                   | None \<Rightarrow>
                       (case renameSync (tempDir s) f (mediaDir s) fileHash of
                          Inl e \<Rightarrow> (server_error, s)
                        | Inr (t, d) \<Rightarrow>
                            (let s1 = s\<lparr>ds := insert_doc
                                               (MediaDoc
                                                  \<lparr>media_filename = fileHash,
                                                   attachment_id =
                                                     field_value body_attachment_id\<rparr>)
                                               (ds s),
                                       tempDir := t, mediaDir := d\<rparr>
                             in if existsSync (tempDir s1) f then
                                  (case unlinkSync (tempDir s1) f of
                                     Inl e \<Rightarrow> (server_error, s1)
                                   | Inr t' \<Rightarrow> (success, s1\<lparr>tempDir := t'\<rparr>))
                                else (success, s1)))))))"

definition post_media ::
  "(bytes \<Rightarrow> string) \<Rightarrow> string option \<Rightarrow> (string \<times> bytes) option \<Rightarrow> state
   \<Rightarrow> rest_response \<times> state" where
  "post_media hash body_attachment_id part s =
     (case upload_single part s of
        (file, s1) \<Rightarrow> post_media_handler hash body_attachment_id file s1)"

text \<open>\<^verbatim>\<open>!!c.responded\<close>, \<^verbatim>\<open>!!c.ack\<close>, \<^verbatim>\<open>!!c.nack\<close> on an optional boolean.\<close>

definition truthy :: "bool option \<Rightarrow> bool" where
  "truthy v = (case v of None \<Rightarrow> False | Some b \<Rightarrow> b)"

definition post_ack :: "string option \<Rightarrow> state \<Rightarrow> rest_response \<times> state" where
  "post_ack body_blindedutxo s =
     (if field_missing body_blindedutxo then (failure 400 ''blindedutxo missing!'', s)
      else
        (case findOne_blindedutxo (field_value body_blindedutxo) (ds s) of
           None \<Rightarrow> (failure 404 ''No consignment found!'', s)
         | Some c \<Rightarrow>
             (if truthy (responded c) then (failure 403 ''Already responded!'', s)
              else
                (success,
                 s\<lparr>ds := update_blindedutxo (field_value body_blindedutxo)
                            (\<lambda>c. c\<lparr>ack := Some True, nack := Some False,
                                   responded := Some True\<rparr>)
                            (ds s)\<rparr>))))"

definition post_nack :: "string option \<Rightarrow> state \<Rightarrow> rest_response \<times> state" where
  "post_nack body_blindedutxo s =
     (if field_missing body_blindedutxo then (failure 400 ''blindedutxo missing!'', s)
      else
        (case findOne_blindedutxo (field_value body_blindedutxo) (ds s) of
           None \<Rightarrow> (\<lparr>status = 404, body = [(''success'', JBool False)]\<rparr>, s)
         | Some c \<Rightarrow>
             (if truthy (responded c) then (failure 403 ''Already responded!'', s)
              else
                (success,
                 s\<lparr>ds := update_blindedutxo (field_value body_blindedutxo)
                            (\<lambda>c. c\<lparr>nack := Some True, ack := Some False,
                                   responded := Some True\<rparr>)
                            (ds s)\<rparr>))))"

definition get_ack :: "string \<Rightarrow> state \<Rightarrow> rest_response \<times> state" where
  "get_ack param s =
     (if param = [] then (failure 400 ''blindedutxo missing!'', s)
      else
        (case findOne_blindedutxo param (ds s) of
           None \<Rightarrow> (failure 404 ''No consignment found!'', s)
         | Some c \<Rightarrow>
             (\<lparr>status = 200,
               body = [(''success'', JBool True), (''ack'', JBool (truthy (ack c))),
                       (''nack'', JBool (truthy (nack c)))]\<rparr>, s)))"

definition getinfo :: "string \<Rightarrow> real \<Rightarrow> rest_response" where
  "getinfo APP_VERSION process_uptime =
     \<lparr>status = 200,
      body = [(''version'', JString APP_VERSION),
              (''uptime'', JNumber (of_int (Math_trunc process_uptime)))]\<rparr>"

section \<open>Observations used in the statements\<close>

text \<open>All consignment documents, and all media documents, stored under a key.\<close>

fun consignments_of :: "string \<Rightarrow> doc list \<Rightarrow> Consignment list" where
  "consignments_of k [] = []"
| "consignments_of k (ConsignmentDoc c # docs) =
     (if blindedutxo c = k then c # consignments_of k docs else consignments_of k docs)"
| "consignments_of k (MediaDoc m # docs) = consignments_of k docs"

fun media_of :: "string \<Rightarrow> doc list \<Rightarrow> Media list" where
  "media_of k [] = []"
| "media_of k (MediaDoc m # docs) =
     (if attachment_id m = k then m # media_of k docs else media_of k docs)"
| "media_of k (ConsignmentDoc c # docs) = media_of k docs"

text \<open>The document that an upload creates.\<close>

definition new_consignment :: "string \<Rightarrow> string \<Rightarrow> Consignment" where
  "new_consignment fileHash k =
     \<lparr>filename = fileHash, blindedutxo = k, ack = None, nack = None, responded = None\<rparr>"

definition new_media :: "string \<Rightarrow> string \<Rightarrow> Media" where
  "new_media fileHash k = \<lparr>media_filename = fileHash, attachment_id = k\<rparr>"

text \<open>The requests of the JSON-RPC methods, with an id.\<close>

definition request :: "string \<Rightarrow> json option \<Rightarrow> json \<Rightarrow> JSONRPCRequest" where
  "request name p i = \<lparr>rpc_method = name, params = p, req_id = Some i\<rparr>"

text \<open>The parameter objects of a well-formed call.\<close>

definition key_params :: "string \<Rightarrow> json option" where
  "key_params k = Some (JObject [(''blinded_utxo'', JString k)])"

definition ack_params :: "string \<Rightarrow> bool \<Rightarrow> json option" where
  "ack_params k v = Some (JObject [(''blinded_utxo'', JString k), (''ack'', JBool v)])"

definition media_params :: "string \<Rightarrow> json option" where
  "media_params a = Some (JObject [(''attachment_id'', JString a)])"

text \<open>
  A stand-in for \<^verbatim>\<open>JSON.parse\<close> in the examples: it reads the two texts \<open>{}\<close> and \<open>null\<close>
  and rejects every other text. The theorems hold for every function in its place.
\<close>

definition example_parse :: "string \<Rightarrow> json option" where
  "example_parse text =
     (if text = ''{}'' then Some (JObject [])
      else if text = ''null'' then Some JNull
      else None)"

text \<open>The state of a server that has stored nothing yet.\<close>

definition empty_store :: state where
  "empty_store = \<lparr>ds = [], tempDir = Map.empty, consignmentDir = Map.empty, mediaDir = Map.empty\<rparr>"

text \<open>
  The state after a request that changed nothing but staged its file part, if it had one, and
  removed it again.
\<close>

definition staged_file_removed :: "(string \<times> bytes) option \<Rightarrow> state \<Rightarrow> state" where
  "staged_file_removed part s =
     (case part of
        None \<Rightarrow> s
      | Some (n, b) \<Rightarrow> s\<lparr>tempDir := (tempDir s)(n := None)\<rparr>)"

text \<open>
  A store that holds one consignment \<open>k1\<close> and one media file \<open>m1\<close>, both with the content
  \<open>hi\<close>, named by its transport encoding in place of a digest.
\<close>

definition example_store :: state where
  "example_store =
     \<lparr>ds = [ConsignmentDoc (new_consignment (base64 [104, 105]) ''k1''),
            MediaDoc (new_media (base64 [104, 105]) ''m1'')],
      tempDir = Map.empty,
      consignmentDir = [base64 [104, 105] \<mapsto> [104, 105]],
      mediaDir = [base64 [104, 105] \<mapsto> [104, 105]]\<rparr>"

text \<open>
  The store after one upload to the empty store: it holds the consignment \<open>k1\<close> with the
  content \<open>hi\<close>, and no media.
\<close>

definition after_one_upload :: state where
  "after_one_upload =
     snd (post_json_rpc example_parse base64 ''0.2.1'' 0
            (request ''consignment.post'' (key_params ''k1'') (JNumber 1))
            (Some (''upload1'', [104, 105])) empty_store)"

section \<open>Facts about the datastore\<close>

lemma findOne_blindedutxo_key:
  "findOne_blindedutxo k docs = Some c \<Longrightarrow> blindedutxo c = k"
  by (induction k docs rule: findOne_blindedutxo.induct) (auto split: if_splits)

lemma findOne_update_same:
  "findOne_blindedutxo k docs = Some c \<Longrightarrow> blindedutxo (f c) = k \<Longrightarrow>
   findOne_blindedutxo k (update_blindedutxo k f docs) = Some (f c)"
  by (induction k docs rule: findOne_blindedutxo.induct) (auto split: if_splits)

lemma findOne_update_other:
  "k' \<noteq> k \<Longrightarrow> (\<And>c. blindedutxo (f c) = blindedutxo c) \<Longrightarrow>
   findOne_blindedutxo k' (update_blindedutxo k f docs) = findOne_blindedutxo k' docs"
  by (induction k f docs rule: update_blindedutxo.induct) auto

lemma findOne_blindedutxo_append:
  "findOne_blindedutxo k (docs @ ys) =
     (case findOne_blindedutxo k docs of
        None \<Rightarrow> findOne_blindedutxo k ys
      | Some c \<Rightarrow> Some c)"
  by (induction k docs rule: findOne_blindedutxo.induct) auto

lemma findOne_attachment_id_append:
  "findOne_attachment_id k (docs @ ys) =
     (case findOne_attachment_id k docs of
        None \<Rightarrow> findOne_attachment_id k ys
      | Some m \<Rightarrow> Some m)"
  by (induction k docs rule: findOne_attachment_id.induct) auto

lemma consignments_of_append:
  "consignments_of k (docs @ ys) = consignments_of k docs @ consignments_of k ys"
  by (induction k docs rule: consignments_of.induct) auto

lemma media_of_append: "media_of k (docs @ ys) = media_of k docs @ media_of k ys"
  by (induction k docs rule: media_of.induct) auto

lemma consignments_of_unused:
  "findOne_blindedutxo k docs = None \<Longrightarrow> consignments_of k docs = []"
  by (induction k docs rule: consignments_of.induct) (auto split: if_splits)

lemma media_of_unused: "findOne_attachment_id k docs = None \<Longrightarrow> media_of k docs = []"
  by (induction k docs rule: media_of.induct) (auto split: if_splits)

section \<open>Facts about the parameter getters\<close>

lemma getBlindedUTXOParam_nonempty: "getBlindedUTXOParam p = Inr k \<Longrightarrow> k \<noteq> []"
  by (auto simp: getBlindedUTXOParam_def split: if_splits option.splits json.splits)

lemma getAttachmentIDParam_nonempty: "getAttachmentIDParam p = Inr k \<Longrightarrow> k \<noteq> []"
  by (auto simp: getAttachmentIDParam_def split: if_splits option.splits json.splits)

section \<open>Facts about the transport encoding\<close>

lemma length_base64_chars: "length base64_chars = 64"
  by (simp add: base64_chars_def)

lemma distinct_base64_chars: "distinct base64_chars"
  by (simp add: base64_chars_def)

lemma pad_not_in_base64_chars: "CHR ''='' \<notin> set base64_chars"
  by (simp add: base64_chars_def)

lemma index_of_nth: "distinct xs \<Longrightarrow> i < length xs \<Longrightarrow> index_of (xs ! i) xs = Some i"
proof (induction xs arbitrary: i)
  case Nil
  then show ?case by simp
next
  case (Cons x xs)
  show ?case
  proof (cases i)
    case 0
    then show ?thesis by simp
  next
    case (Suc j)
    with Cons.prems have "j < length xs" and "x \<notin> set xs" and "distinct xs" by auto
    then have "xs ! j \<noteq> x" and "index_of (xs ! j) xs = Some j"
      using Cons.IH by (auto simp: nth_mem)
    with Suc show ?thesis by simp
  qed
qed

lemma unsextet_sextet: "i < 64 \<Longrightarrow> unsextet (sextet i) = Some i"
  by (simp add: unsextet_def sextet_def index_of_nth distinct_base64_chars length_base64_chars)

lemma sextet_not_pad:
  assumes "i < 64"
  shows "sextet i \<noteq> CHR ''=''"
proof -
  from assms have "base64_chars ! i \<in> set base64_chars"
    by (simp add: length_base64_chars)
  with pad_not_in_base64_chars show ?thesis
    unfolding sextet_def by metis
qed

lemma unat_byte_less: "unat (a :: 8 word) < 256"
  using unsigned_less [of a] by simp

lemma sextet_index_bounds:
  fixes a b :: "8 word"
  shows "unat a div 4 < 64" and "unat a mod 4 * 16 < 64"
    and "unat a mod 4 * 16 + unat b div 16 < 64"
    and "unat a mod 16 * 4 < 64" and "unat a mod 16 * 4 + unat b div 64 < 64"
    and "unat a mod 64 < 64"
  using unat_byte_less [of a] unat_byte_less [of b] by linarith+

lemma byte_high_bits:
  fixes a :: "8 word"
  shows "unat a div 16 < 16" and "unat a div 64 < 4"
  using unat_byte_less [of a] by linarith+

lemma base64_decode_base64: "base64_decode (base64 bs) = Some bs"
proof (induction bs rule: base64.induct)
  case 1
  then show ?case by simp
next
  case (2 a)
  then show ?case
    by (simp add: unsextet_sextet sextet_not_pad sextet_index_bounds byte_high_bits)
next
  case (3 a b)
  then show ?case
    by (simp add: unsextet_sextet sextet_not_pad sextet_index_bounds byte_high_bits)
next
  case (4 a b c rest)
  then show ?case
    by (simp add: unsextet_sextet sextet_not_pad sextet_index_bounds byte_high_bits)
qed

section \<open>Facts about the cleanup of staged files\<close>

lemma unlink_unhandled_staged:
  "tempDir s f = Some b \<Longrightarrow> unlink_unhandled (Some f) s = s\<lparr>tempDir := (tempDir s)(f := None)\<rparr>"
  by (simp add: unlink_unhandled_def existsSync_def unlinkSync_def)

lemma unlink_unhandled_gone: "tempDir s f = None \<Longrightarrow> unlink_unhandled (Some f) s = s"
  by (simp add: unlink_unhandled_def existsSync_def)

lemma unlink_unhandled_None: "unlink_unhandled None s = s"
  by (simp add: unlink_unhandled_def)

lemma tempDir_unlink_unhandled: "tempDir (unlink_unhandled (Some f) s) f = None"
  by (simp add: unlink_unhandled_def existsSync_def unlinkSync_def split: option.splits)

section \<open>The upload methods, case by case\<close>

lemma consignment_post_created:
  assumes "getBlindedUTXOParam p = Inr k" and "findOne_blindedutxo k (ds s) = None"
    and "tempDir s f = Some b"
  shows "consignment_post hash p (Some f) s =
           (Inr True,
            s\<lparr>ds := ds s @ [ConsignmentDoc (new_consignment (hash b) k)],
              tempDir := (tempDir s)(f := None),
              consignmentDir := (consignmentDir s)(hash b \<mapsto> b)\<rparr>)"
  using assms
  by (simp add: consignment_post_def consignment_post_try_def genHashFromFile_def
      renameSync_def insert_doc_def new_consignment_def)

lemma consignment_post_noop:
  assumes "getBlindedUTXOParam p = Inr k" and "findOne_blindedutxo k (ds s) = Some c"
    and "tempDir s f = Some b" and "filename c = hash b"
  shows "consignment_post hash p (Some f) s = (Inr False, s\<lparr>tempDir := (tempDir s)(f := None)\<rparr>)"
  using assms
  by (simp add: consignment_post_def consignment_post_try_def genHashFromFile_def
      unlinkSync_def)

lemma consignment_post_conflict:
  assumes "getBlindedUTXOParam p = Inr k" and "findOne_blindedutxo k (ds s) = Some c"
    and "tempDir s f = Some b" and "filename c \<noteq> hash b"
  shows "consignment_post hash p (Some f) s =
           (Inl CannotChangeUploadedFile, s\<lparr>tempDir := (tempDir s)(f := None)\<rparr>)"
  using assms
  by (simp add: consignment_post_def consignment_post_try_def genHashFromFile_def
      unlink_unhandled_def existsSync_def unlinkSync_def)

lemma consignment_post_invalid:
  assumes "getBlindedUTXOParam p = Inl e"
  shows "consignment_post hash p file s = (Inl e, unlink_unhandled file s)"
  using assms by (simp add: consignment_post_def consignment_post_try_def)

lemma media_post_created:
  assumes "getAttachmentIDParam p = Inr k" and "findOne_attachment_id k (ds s) = None"
    and "tempDir s f = Some b"
  shows "media_post hash p (Some f) s =
           (Inr True,
            s\<lparr>ds := ds s @ [MediaDoc (new_media (hash b) k)],
              tempDir := (tempDir s)(f := None),
              mediaDir := (mediaDir s)(hash b \<mapsto> b)\<rparr>)"
  using assms
  by (simp add: media_post_def media_post_try_def genHashFromFile_def
      renameSync_def insert_doc_def new_media_def)

lemma media_post_noop:
  assumes "getAttachmentIDParam p = Inr k" and "findOne_attachment_id k (ds s) = Some m"
    and "tempDir s f = Some b" and "media_filename m = hash b"
  shows "media_post hash p (Some f) s = (Inr False, s\<lparr>tempDir := (tempDir s)(f := None)\<rparr>)"
  using assms
  by (simp add: media_post_def media_post_try_def genHashFromFile_def unlinkSync_def)

lemma media_post_conflict:
  assumes "getAttachmentIDParam p = Inr k" and "findOne_attachment_id k (ds s) = Some m"
    and "tempDir s f = Some b" and "media_filename m \<noteq> hash b"
  shows "media_post hash p (Some f) s =
           (Inl CannotChangeUploadedFile, s\<lparr>tempDir := (tempDir s)(f := None)\<rparr>)"
  using assms
  by (simp add: media_post_def media_post_try_def genHashFromFile_def
      unlink_unhandled_def existsSync_def unlinkSync_def)

lemma media_post_invalid:
  assumes "getAttachmentIDParam p = Inl e"
  shows "media_post hash p file s = (Inl e, unlink_unhandled file s)"
  using assms by (simp add: media_post_def media_post_try_def)

section \<open>Evaluating the examples\<close>

lemmas example_simps =
  key_params_def ack_params_def media_params_def getBlindedUTXOParam_def getAttachmentIDParam_def
  getAckParam_def empty_store_def example_store_def new_consignment_def new_media_def

lemma example_params:
  "getBlindedUTXOParam (key_params ''k1'') = Inr ''k1''"
  "getBlindedUTXOParam (ack_params ''k1'' a) = Inr ''k1''"
  "getAckParam (ack_params ''k1'' a) = Inr a"
  by (simp_all add: example_simps)

lemmas route_simps =
  post_json_rpc_def parse_and_log_params_def log_params_def joinEntries_throws_def
  receive_def call_method_def request_def upload_single_def
  consignment_post_def consignment_post_try_def media_post_def media_post_try_def
  consignment_get_def media_get_def ack_get_def ack_post_def getConsignment_def
  post_consignment_def post_consignment_handler_def post_media_def post_media_handler_def
  post_ack_def post_nack_def get_ack_def get_consignment_def get_media_def
  genHashFromFile_def renameSync_def readFileSync_def unlinkSync_def existsSync_def
  insert_doc_def unlink_unhandled_def field_missing_def field_value_def truthy_def

section \<open>The first lines of the handler\<close>

text \<open>
  Where the first lines hand the parameters \<open>p\<close> on, the route stages the file, calls the
  method with \<open>p\<close>, answers and cleans up; where they throw, it stops after the staging.
\<close>

lemma post_json_rpc_passed:
  assumes "parse_and_log_params JSON_parse r = Inr p"
  shows "post_json_rpc JSON_parse hash v u (request name r i) part s =
           (case upload_single part s of
              (file, s1) \<Rightarrow>
                (case call_method hash v u name p file s1 of
                   (x, s2) \<Rightarrow>
                     ((case x of Inl e \<Rightarrow> JsonError e | Inr y \<Rightarrow> JsonResult y),
                      unlink_unhandled file s2)))"
  using assms
  by (simp add: post_json_rpc_def receive_def request_def split: prod.splits sum.splits)

lemma post_json_rpc_thrown:
  assumes "parse_and_log_params JSON_parse r = Inl e"
  shows "post_json_rpc JSON_parse hash v u (request name r i) part s =
           (NoResponse, snd (upload_single part s))"
  using assms
  by (simp add: post_json_rpc_def request_def split: prod.splits)

lemma well_formed_params_pass:
  "parse_and_log_params JSON_parse (key_params k) = Inr (key_params k)"
  "parse_and_log_params JSON_parse (ack_params k a) = Inr (ack_params k a)"
  "parse_and_log_params JSON_parse (media_params k) = Inr (media_params k)"
  by (simp_all add: parse_and_log_params_def log_params_def joinEntries_throws_def
      key_params_def ack_params_def media_params_def)

section \<open>The datastore after an upload\<close>

lemma findOne_blindedutxo_created:
  "findOne_blindedutxo k docs = None \<Longrightarrow>
   findOne_blindedutxo k (docs @ [ConsignmentDoc (new_consignment h k)]) = Some (new_consignment h k)"
  by (simp add: findOne_blindedutxo_append new_consignment_def)

lemma findOne_attachment_id_created:
  "findOne_attachment_id k docs = None \<Longrightarrow>
   findOne_attachment_id k (docs @ [MediaDoc (new_media h k)]) = Some (new_media h k)"
  by (simp add: findOne_attachment_id_append new_media_def)

lemma findOne_blindedutxo_created_other:
  "findOne_blindedutxo k' docs = None \<Longrightarrow> k' \<noteq> k \<Longrightarrow>
   findOne_blindedutxo k' (docs @ [ConsignmentDoc (new_consignment h k)]) = None"
  by (simp add: findOne_blindedutxo_append new_consignment_def)

lemma findOne_attachment_id_created_other:
  "findOne_attachment_id k' docs = None \<Longrightarrow> k' \<noteq> k \<Longrightarrow>
   findOne_attachment_id k' (docs @ [MediaDoc (new_media h k)]) = None"
  by (simp add: findOne_attachment_id_append new_media_def)

lemma rpc_consignment_get:
  assumes "parse_and_log_params JSON_parse r = Inr p"
  shows "post_json_rpc JSON_parse hash v u (request ''consignment.get'' r j) None s =
     (case getBlindedUTXOParam p of
        Inl e \<Rightarrow> (JsonError e, s)
      | Inr k \<Rightarrow>
          (case findOne_blindedutxo k (ds s) of
             None \<Rightarrow> (JsonError NotFoundConsignment, s)
           | Some c \<Rightarrow>
               (case consignmentDir s (filename c) of
                  None \<Rightarrow> (JsonError FsError, s)
                | Some content \<Rightarrow> (JsonResult (StringResult (base64 content)), s))))"
  by (simp add: post_json_rpc_passed [OF assms] upload_single_def call_method_def
      unlink_unhandled_None consignment_get_def getConsignment_def readFileSync_def
      split: sum.splits option.splits)

lemma rpc_media_get:
  assumes "parse_and_log_params JSON_parse r = Inr p"
  shows "post_json_rpc JSON_parse hash v u (request ''media.get'' r j) None s =
     (case getAttachmentIDParam p of
        Inl e \<Rightarrow> (JsonError e, s)
      | Inr k \<Rightarrow>
          (case findOne_attachment_id k (ds s) of
             None \<Rightarrow> (JsonError NotFoundMedia, s)
           | Some m \<Rightarrow>
               (case mediaDir s (media_filename m) of
                  None \<Rightarrow> (JsonError FsError, s)
                | Some content \<Rightarrow> (JsonResult (StringResult (base64 content)), s))))"
  by (simp add: post_json_rpc_passed [OF assms] upload_single_def call_method_def
      unlink_unhandled_None media_get_def readFileSync_def
      split: sum.splits option.splits)

lemma consignments_of_created:
  "findOne_blindedutxo k docs = None \<Longrightarrow>
   consignments_of k (docs @ [ConsignmentDoc (new_consignment h k)]) = [new_consignment h k]"
  by (simp add: consignments_of_append consignments_of_unused new_consignment_def)

lemma media_of_created:
  "findOne_attachment_id k docs = None \<Longrightarrow>
   media_of k (docs @ [MediaDoc (new_media h k)]) = [new_media h k]"
  by (simp add: media_of_append media_of_unused new_media_def)

section \<open>The upload routes, case by case\<close>

lemma rpc_consignment_post_created:
  assumes "parse_and_log_params JSON_parse r = Inr p"
    and "getBlindedUTXOParam p = Inr k" and "findOne_blindedutxo k (ds s) = None"
  shows "post_json_rpc JSON_parse hash v u (request ''consignment.post'' r i) (Some (n, b)) s =
           (JsonResult (BoolResult True),
            s\<lparr>ds := ds s @ [ConsignmentDoc (new_consignment (hash b) k)],
              tempDir := (tempDir s)(n := None),
              consignmentDir := (consignmentDir s)(hash b \<mapsto> b)\<rparr>)"
proof -
  let ?s1 = "s\<lparr>tempDir := (tempDir s)(n \<mapsto> b)\<rparr>"
  have "consignment_post hash p (Some n) ?s1 =
          (Inr True,
           ?s1\<lparr>ds := ds ?s1 @ [ConsignmentDoc (new_consignment (hash b) k)],
                tempDir := (tempDir ?s1)(n := None),
                consignmentDir := (consignmentDir ?s1)(hash b \<mapsto> b)\<rparr>)"
    using assms(2-) by (intro consignment_post_created) simp_all
  then show ?thesis
    by (simp add: post_json_rpc_passed [OF assms(1)] upload_single_def call_method_def
        unlink_unhandled_gone)
qed

lemma rpc_consignment_post_noop:
  assumes "parse_and_log_params JSON_parse r = Inr p"
    and "getBlindedUTXOParam p = Inr k" and "findOne_blindedutxo k (ds s) = Some c"
    and "filename c = hash b"
  shows "post_json_rpc JSON_parse hash v u (request ''consignment.post'' r i) (Some (n, b)) s =
           (JsonResult (BoolResult False), s\<lparr>tempDir := (tempDir s)(n := None)\<rparr>)"
proof -
  let ?s1 = "s\<lparr>tempDir := (tempDir s)(n \<mapsto> b)\<rparr>"
  have "consignment_post hash p (Some n) ?s1 =
          (Inr False, ?s1\<lparr>tempDir := (tempDir ?s1)(n := None)\<rparr>)"
    using assms(2-) by (intro consignment_post_noop) simp_all
  then show ?thesis
    by (simp add: post_json_rpc_passed [OF assms(1)] upload_single_def call_method_def
        unlink_unhandled_gone)
qed

lemma rpc_consignment_post_conflict:
  assumes "parse_and_log_params JSON_parse r = Inr p"
    and "getBlindedUTXOParam p = Inr k" and "findOne_blindedutxo k (ds s) = Some c"
    and "filename c \<noteq> hash b"
  shows "post_json_rpc JSON_parse hash v u (request ''consignment.post'' r i) (Some (n, b)) s =
           (JsonError CannotChangeUploadedFile, s\<lparr>tempDir := (tempDir s)(n := None)\<rparr>)"
proof -
  let ?s1 = "s\<lparr>tempDir := (tempDir s)(n \<mapsto> b)\<rparr>"
  have "consignment_post hash p (Some n) ?s1 =
          (Inl CannotChangeUploadedFile, ?s1\<lparr>tempDir := (tempDir ?s1)(n := None)\<rparr>)"
    using assms(2-) by (intro consignment_post_conflict) simp_all
  then show ?thesis
    by (simp add: post_json_rpc_passed [OF assms(1)] upload_single_def call_method_def
        unlink_unhandled_gone)
qed

lemma rest_consignment_created:
  assumes "k \<noteq> []" and "findOne_blindedutxo k (ds s) = None"
  shows "post_consignment hash (Some k) (Some (n, b)) s =
           (success,
            s\<lparr>ds := ds s @ [ConsignmentDoc (new_consignment (hash b) k)],
              tempDir := (tempDir s)(n := None),
              consignmentDir := (consignmentDir s)(hash b \<mapsto> b)\<rparr>)"
  using assms
  by (simp add: post_consignment_def post_consignment_handler_def upload_single_def
      field_missing_def field_value_def genHashFromFile_def renameSync_def insert_doc_def
      new_consignment_def existsSync_def)

lemma rest_consignment_noop:
  assumes "k \<noteq> []" and "findOne_blindedutxo k (ds s) = Some c" and "filename c = hash b"
  shows "post_consignment hash (Some k) (Some (n, b)) s =
           (success, s\<lparr>tempDir := (tempDir s)(n \<mapsto> b)\<rparr>)"
  using assms
  by (simp add: post_consignment_def post_consignment_handler_def upload_single_def
      field_missing_def field_value_def genHashFromFile_def)

lemma rest_consignment_conflict:
  assumes "k \<noteq> []" and "findOne_blindedutxo k (ds s) = Some c" and "filename c \<noteq> hash b"
  shows "post_consignment hash (Some k) (Some (n, b)) s =
           (failure 403 ''Cannot change uploaded file!'', s\<lparr>tempDir := (tempDir s)(n \<mapsto> b)\<rparr>)"
  using assms
  by (simp add: post_consignment_def post_consignment_handler_def upload_single_def
      field_missing_def field_value_def genHashFromFile_def)

lemma rpc_media_post_created:
  assumes "parse_and_log_params JSON_parse r = Inr p"
    and "getAttachmentIDParam p = Inr k" and "findOne_attachment_id k (ds s) = None"
  shows "post_json_rpc JSON_parse hash v u (request ''media.post'' r i) (Some (n, b)) s =
           (JsonResult (BoolResult True),
            s\<lparr>ds := ds s @ [MediaDoc (new_media (hash b) k)],
              tempDir := (tempDir s)(n := None),
              mediaDir := (mediaDir s)(hash b \<mapsto> b)\<rparr>)"
proof -
  let ?s1 = "s\<lparr>tempDir := (tempDir s)(n \<mapsto> b)\<rparr>"
  have "media_post hash p (Some n) ?s1 =
          (Inr True,
           ?s1\<lparr>ds := ds ?s1 @ [MediaDoc (new_media (hash b) k)],
                tempDir := (tempDir ?s1)(n := None),
                mediaDir := (mediaDir ?s1)(hash b \<mapsto> b)\<rparr>)"
    using assms(2-) by (intro media_post_created) simp_all
  then show ?thesis
    by (simp add: post_json_rpc_passed [OF assms(1)] upload_single_def call_method_def
        unlink_unhandled_gone)
qed

lemma rpc_media_post_noop:
  assumes "parse_and_log_params JSON_parse r = Inr p"
    and "getAttachmentIDParam p = Inr k" and "findOne_attachment_id k (ds s) = Some m"
    and "media_filename m = hash b"
  shows "post_json_rpc JSON_parse hash v u (request ''media.post'' r i) (Some (n, b)) s =
           (JsonResult (BoolResult False), s\<lparr>tempDir := (tempDir s)(n := None)\<rparr>)"
proof -
  let ?s1 = "s\<lparr>tempDir := (tempDir s)(n \<mapsto> b)\<rparr>"
  have "media_post hash p (Some n) ?s1 =
          (Inr False, ?s1\<lparr>tempDir := (tempDir ?s1)(n := None)\<rparr>)"
    using assms(2-) by (intro media_post_noop) simp_all
  then show ?thesis
    by (simp add: post_json_rpc_passed [OF assms(1)] upload_single_def call_method_def
        unlink_unhandled_gone)
qed

lemma rpc_media_post_conflict:
  assumes "parse_and_log_params JSON_parse r = Inr p"
    and "getAttachmentIDParam p = Inr k" and "findOne_attachment_id k (ds s) = Some m"
    and "media_filename m \<noteq> hash b"
  shows "post_json_rpc JSON_parse hash v u (request ''media.post'' r i) (Some (n, b)) s =
           (JsonError CannotChangeUploadedFile, s\<lparr>tempDir := (tempDir s)(n := None)\<rparr>)"
proof -
  let ?s1 = "s\<lparr>tempDir := (tempDir s)(n \<mapsto> b)\<rparr>"
  have "media_post hash p (Some n) ?s1 =
          (Inl CannotChangeUploadedFile, ?s1\<lparr>tempDir := (tempDir ?s1)(n := None)\<rparr>)"
    using assms(2-) by (intro media_post_conflict) simp_all
  then show ?thesis
    by (simp add: post_json_rpc_passed [OF assms(1)] upload_single_def call_method_def
        unlink_unhandled_gone)
qed

lemma rest_media_created:
  assumes "k \<noteq> []" and "findOne_attachment_id k (ds s) = None"
  shows "post_media hash (Some k) (Some (n, b)) s =
           (success,
            s\<lparr>ds := ds s @ [MediaDoc (new_media (hash b) k)],
              tempDir := (tempDir s)(n := None),
              mediaDir := (mediaDir s)(hash b \<mapsto> b)\<rparr>)"
  using assms
  by (simp add: post_media_def post_media_handler_def upload_single_def
      field_missing_def field_value_def genHashFromFile_def renameSync_def insert_doc_def
      new_media_def existsSync_def)

lemma rest_media_noop:
  assumes "k \<noteq> []" and "findOne_attachment_id k (ds s) = Some m" and "media_filename m = hash b"
  shows "post_media hash (Some k) (Some (n, b)) s =
           (success, s\<lparr>tempDir := (tempDir s)(n \<mapsto> b)\<rparr>)"
  using assms
  by (simp add: post_media_def post_media_handler_def upload_single_def
      field_missing_def field_value_def genHashFromFile_def)

lemma rest_media_conflict:
  assumes "k \<noteq> []" and "findOne_attachment_id k (ds s) = Some m" and "media_filename m \<noteq> hash b"
  shows "post_media hash (Some k) (Some (n, b)) s =
           (failure 403 ''Cannot change uploaded file!'', s\<lparr>tempDir := (tempDir s)(n \<mapsto> b)\<rparr>)"
  using assms
  by (simp add: post_media_def post_media_handler_def upload_single_def
      field_missing_def field_value_def genHashFromFile_def)

lemma after_one_upload:
  "after_one_upload =
     empty_store\<lparr>ds := [ConsignmentDoc (new_consignment (base64 [104, 105]) ''k1'')],
       consignmentDir := [base64 [104, 105] \<mapsto> [104, 105]]\<rparr>"
proof -
  have "findOne_blindedutxo ''k1'' (ds empty_store) = None"
    by (simp add: empty_store_def)
  then show ?thesis
    unfolding after_one_upload_def
    by (simp add: rpc_consignment_post_created [OF well_formed_params_pass(1) example_params(1)])
      (simp add: empty_store_def)
qed

section \<open>The acknowledgment state machine\<close>

text \<open>
  Claim C5. The generic setter \<^verbatim>\<open>ack.post\<close>, called with well-formed parameters for a stored
  consignment, follows the state-machine rule: on an undecided record it stores the requested
  boolean in that record (and touches no other record) and returns true; on a record already
  set to the same value it returns false and changes nothing; on a record set to the opposite
  value it fails with \<open>CannotChangeAck\<close> and changes nothing.
\<close>

theorem ack_post_state_machine:
  assumes "getBlindedUTXOParam p = Inr k" and "getAckParam p = Inr v"
    and "findOne_blindedutxo k (ds s) = Some c"
  shows "(ack c = None \<longrightarrow>
            fst (ack_post p s) = Inr True \<and>
            findOne_blindedutxo k (ds (snd (ack_post p s))) = Some (c\<lparr>ack := Some v\<rparr>) \<and>
            (\<forall>k'. k' \<noteq> k \<longrightarrow>
               findOne_blindedutxo k' (ds (snd (ack_post p s))) = findOne_blindedutxo k' (ds s)))
       \<and> (ack c = Some v \<longrightarrow> ack_post p s = (Inr False, s))
       \<and> (ack c = Some (\<not> v) \<longrightarrow> ack_post p s = (Inl CannotChangeAck, s))"
proof -
  from assms(3) have key: "blindedutxo c = k"
    by (rule findOne_blindedutxo_key)
  from assms have found: "getConsignment p s = Inr c"
    by (simp add: getConsignment_def)
  show ?thesis
  proof (intro conjI impI allI)
    assume "ack c = None"
    with found assms(2) key
    have run: "ack_post p s =
        (Inr True, s\<lparr>ds := update_blindedutxo k (\<lambda>c. c\<lparr>ack := Some v\<rparr>) (ds s)\<rparr>)"
      by (simp add: ack_post_def)
    show "fst (ack_post p s) = Inr True"
      by (simp add: run)
    show "findOne_blindedutxo k (ds (snd (ack_post p s))) = Some (c\<lparr>ack := Some v\<rparr>)"
      using assms(3) key by (simp add: run findOne_update_same)
    fix k' assume "k' \<noteq> k"
    then show "findOne_blindedutxo k' (ds (snd (ack_post p s))) = findOne_blindedutxo k' (ds s)"
      by (simp add: run findOne_update_other)
  next
    assume "ack c = Some v"
    with found assms(2) show "ack_post p s = (Inr False, s)"
      by (simp add: ack_post_def)
  next
    assume "ack c = Some (\<not> v)"
    with found assms(2) show "ack_post p s = (Inl CannotChangeAck, s)"
      by (simp add: ack_post_def)
  qed
qed

text \<open>
  The three cases at a concrete consignment \<open>k1\<close>: undecided and acknowledged, acknowledged
  and acknowledged again, acknowledged and then refused.
\<close>

theorem ack_post_state_machine_witness:
  "getBlindedUTXOParam (ack_params ''k1'' True) = Inr ''k1''
   \<and> getAckParam (ack_params ''k1'' True) = Inr True
   \<and> getAckParam (ack_params ''k1'' False) = Inr False
   \<and> fst (ack_post (ack_params ''k1'' True)
             (empty_store\<lparr>ds := [ConsignmentDoc (new_consignment ''h1'' ''k1'')]\<rparr>)) = Inr True
   \<and> findOne_blindedutxo ''k1''
         (ds (snd (ack_post (ack_params ''k1'' True)
                     (empty_store\<lparr>ds := [ConsignmentDoc (new_consignment ''h1'' ''k1'')]\<rparr>))))
       = Some ((new_consignment ''h1'' ''k1'')\<lparr>ack := Some True\<rparr>)
   \<and> ack_post (ack_params ''k1'' True)
         (empty_store\<lparr>ds := [ConsignmentDoc ((new_consignment ''h1'' ''k1'')\<lparr>ack := Some True\<rparr>)]\<rparr>)
       = (Inr False,
          empty_store\<lparr>ds := [ConsignmentDoc ((new_consignment ''h1'' ''k1'')\<lparr>ack := Some True\<rparr>)]\<rparr>)
   \<and> ack_post (ack_params ''k1'' False)
         (empty_store\<lparr>ds := [ConsignmentDoc ((new_consignment ''h1'' ''k1'')\<lparr>ack := Some True\<rparr>)]\<rparr>)
       = (Inl CannotChangeAck,
          empty_store\<lparr>ds := [ConsignmentDoc ((new_consignment ''h1'' ''k1'')\<lparr>ack := Some True\<rparr>)]\<rparr>)"
proof -
  have k: "getBlindedUTXOParam (ack_params ''k1'' v) = Inr ''k1''" for v
    by (simp add: ack_params_def getBlindedUTXOParam_def)
  have a: "getAckParam (ack_params ''k1'' v) = Inr v" for v
    by (simp add: ack_params_def getAckParam_def)
  have f1: "findOne_blindedutxo ''k1''
              (ds (empty_store\<lparr>ds := [ConsignmentDoc (new_consignment ''h1'' ''k1'')]\<rparr>))
            = Some (new_consignment ''h1'' ''k1'')"
    by (simp add: new_consignment_def)
  have f2: "findOne_blindedutxo ''k1''
              (ds (empty_store\<lparr>ds := [ConsignmentDoc ((new_consignment ''h1'' ''k1'')\<lparr>ack := Some True\<rparr>)]\<rparr>))
            = Some ((new_consignment ''h1'' ''k1'')\<lparr>ack := Some True\<rparr>)"
    by (simp add: new_consignment_def)
  show ?thesis
    using ack_post_state_machine [OF k a f1, of True]
      ack_post_state_machine [OF k a f2, of True]
      ack_post_state_machine [OF k a f2, of False] k a
    by (simp add: new_consignment_def)
qed

section \<open>The info route\<close>

text \<open>
  Claim C10. \<^verbatim>\<open>GET /getinfo\<close> always answers with status 200 and a body of exactly the two
  fields \<open>version\<close> and \<open>uptime\<close>, the latter the process uptime truncated to an integer; it
  has no \<open>protocol_version\<close> field, which the result of \<^verbatim>\<open>server.info\<close> has, and no
  \<open>success\<close> field.
\<close>

theorem getinfo_version_uptime:
  "status (getinfo v u) = 200
   \<and> map fst (body (getinfo v u)) = [''version'', ''uptime'']
   \<and> map_of (body (getinfo v u)) ''version'' = Some (JString v)
   \<and> map_of (body (getinfo v u)) ''uptime'' = Some (JNumber (of_int (Math_trunc u)))
   \<and> map_of (body (getinfo v u)) ''protocol_version'' = None
   \<and> map_of (body (getinfo v u)) ''success'' = None
   \<and> server_info v u =
        \<lparr>version = v, protocol_version = PROTOCOL_VERSION, uptime = Math_trunc u\<rparr>
   \<and> \<bar>of_int (Math_trunc u)\<bar> \<le> \<bar>u\<bar>
   \<and> \<bar>u - of_int (Math_trunc u)\<bar> < 1"
proof -
  have "\<bar>of_int (Math_trunc u)\<bar> \<le> \<bar>u\<bar>" and "\<bar>u - of_int (Math_trunc u)\<bar> < 1"
    unfolding Math_trunc_def by (simp; linarith)+
  then show ?thesis
    by (simp add: getinfo_def server_info_def)
qed

section \<open>Uploads\<close>

text \<open>
  Claim C3. Uploading the same content twice under a key that was unused before, through
  \<^verbatim>\<open>consignment.post\<close>, \<^verbatim>\<open>POST /consignment\<close>, \<^verbatim>\<open>media.post\<close> or \<^verbatim>\<open>POST /media\<close>, reports
  "created" the first time (result true, or status 200 with success true) and "no-op" the
  second time (result false, or again status 200 with success true); afterwards the datastore
  holds exactly one record for the key, the second call has changed neither the datastore nor
  the blob directory, and the directory is the one from before the first call plus the one
  blob, stored under the digest of the content. On the JSON-RPC route the parameters are
  taken as received, \<open>x\<close> and \<open>y\<close>, and are required to get through the first lines of the
  handler; \<open>p\<close> and \<open>q\<close> are what the methods then see.
\<close>

theorem upload_twice_created_then_noop:
  assumes "parse_and_log_params JSON_parse x = Inr p"
    and "getBlindedUTXOParam p = Inr k" and "findOne_blindedutxo k (ds s) = None"
    and "parse_and_log_params JSON_parse y = Inr q"
    and "getAttachmentIDParam q = Inr a" and "findOne_attachment_id a (ds s) = None"
  shows "(case post_json_rpc JSON_parse hash v u (request ''consignment.post'' x i) (Some (n1, b)) s of
            (r1, s1) \<Rightarrow>
              (case post_json_rpc JSON_parse hash v u (request ''consignment.post'' x j) (Some (n2, b)) s1 of
                 (r2, s2) \<Rightarrow>
                   r1 = JsonResult (BoolResult True) \<and> r2 = JsonResult (BoolResult False)
                   \<and> consignments_of k (ds s2) = [new_consignment (hash b) k]
                   \<and> ds s2 = ds s1
                   \<and> consignmentDir s2 = consignmentDir s1
                   \<and> consignmentDir s2 = (consignmentDir s)(hash b \<mapsto> b)))
       \<and> (case post_consignment hash (Some k) (Some (n1, b)) s of
            (r1, s1) \<Rightarrow>
              (case post_consignment hash (Some k) (Some (n2, b)) s1 of
                 (r2, s2) \<Rightarrow>
                   r1 = success \<and> r2 = success
                   \<and> consignments_of k (ds s2) = [new_consignment (hash b) k]
                   \<and> ds s2 = ds s1
                   \<and> consignmentDir s2 = consignmentDir s1
                   \<and> consignmentDir s2 = (consignmentDir s)(hash b \<mapsto> b)))
       \<and> (case post_json_rpc JSON_parse hash v u (request ''media.post'' y i) (Some (n1, b)) s of
            (r1, s1) \<Rightarrow>
              (case post_json_rpc JSON_parse hash v u (request ''media.post'' y j) (Some (n2, b)) s1 of
                 (r2, s2) \<Rightarrow>
                   r1 = JsonResult (BoolResult True) \<and> r2 = JsonResult (BoolResult False)
                   \<and> media_of a (ds s2) = [new_media (hash b) a]
                   \<and> ds s2 = ds s1
                   \<and> mediaDir s2 = mediaDir s1
                   \<and> mediaDir s2 = (mediaDir s)(hash b \<mapsto> b)))
       \<and> (case post_media hash (Some a) (Some (n1, b)) s of
            (r1, s1) \<Rightarrow>
              (case post_media hash (Some a) (Some (n2, b)) s1 of
                 (r2, s2) \<Rightarrow>
                   r1 = success \<and> r2 = success
                   \<and> media_of a (ds s2) = [new_media (hash b) a]
                   \<and> ds s2 = ds s1
                   \<and> mediaDir s2 = mediaDir s1
                   \<and> mediaDir s2 = (mediaDir s)(hash b \<mapsto> b)))"
proof (intro conjI)
  let ?c = "new_consignment (hash b) k"
  let ?m = "new_media (hash b) a"
  have k: "k \<noteq> []" and a: "a \<noteq> []"
    using assms by (simp_all add: getBlindedUTXOParam_nonempty getAttachmentIDParam_nonempty)
  have c: "findOne_blindedutxo k (ds s @ [ConsignmentDoc ?c]) = Some ?c" "filename ?c = hash b"
    using assms(3) by (simp_all add: findOne_blindedutxo_created) (simp add: new_consignment_def)
  have m: "findOne_attachment_id a (ds s @ [MediaDoc ?m]) = Some ?m" "media_filename ?m = hash b"
    using assms(6) by (simp_all add: findOne_attachment_id_created) (simp add: new_media_def)
  show "case post_json_rpc JSON_parse hash v u (request ''consignment.post'' x i) (Some (n1, b)) s of
          (r1, s1) \<Rightarrow>
            (case post_json_rpc JSON_parse hash v u (request ''consignment.post'' x j) (Some (n2, b)) s1 of
               (r2, s2) \<Rightarrow>
                 r1 = JsonResult (BoolResult True) \<and> r2 = JsonResult (BoolResult False)
                 \<and> consignments_of k (ds s2) = [?c]
                 \<and> ds s2 = ds s1
                 \<and> consignmentDir s2 = consignmentDir s1
                 \<and> consignmentDir s2 = (consignmentDir s)(hash b \<mapsto> b))"
    using assms(3) c
    by (simp add: rpc_consignment_post_created [OF assms(1,2,3)]
        rpc_consignment_post_noop [OF assms(1,2), where c = ?c] consignments_of_created)
  show "case post_consignment hash (Some k) (Some (n1, b)) s of
          (r1, s1) \<Rightarrow>
            (case post_consignment hash (Some k) (Some (n2, b)) s1 of
               (r2, s2) \<Rightarrow>
                 r1 = success \<and> r2 = success
                 \<and> consignments_of k (ds s2) = [?c]
                 \<and> ds s2 = ds s1
                 \<and> consignmentDir s2 = consignmentDir s1
                 \<and> consignmentDir s2 = (consignmentDir s)(hash b \<mapsto> b))"
    using assms(3) c
    by (simp add: rest_consignment_created [OF k assms(3)]
        rest_consignment_noop [OF k, where c = ?c] consignments_of_created)
  show "case post_json_rpc JSON_parse hash v u (request ''media.post'' y i) (Some (n1, b)) s of
          (r1, s1) \<Rightarrow>
            (case post_json_rpc JSON_parse hash v u (request ''media.post'' y j) (Some (n2, b)) s1 of
               (r2, s2) \<Rightarrow>
                 r1 = JsonResult (BoolResult True) \<and> r2 = JsonResult (BoolResult False)
                 \<and> media_of a (ds s2) = [?m]
                 \<and> ds s2 = ds s1
                 \<and> mediaDir s2 = mediaDir s1
                 \<and> mediaDir s2 = (mediaDir s)(hash b \<mapsto> b))"
    using assms(6) m
    by (simp add: rpc_media_post_created [OF assms(4,5,6)]
        rpc_media_post_noop [OF assms(4,5), where m = ?m] media_of_created)
  show "case post_media hash (Some a) (Some (n1, b)) s of
          (r1, s1) \<Rightarrow>
            (case post_media hash (Some a) (Some (n2, b)) s1 of
               (r2, s2) \<Rightarrow>
                 r1 = success \<and> r2 = success
                 \<and> media_of a (ds s2) = [?m]
                 \<and> ds s2 = ds s1
                 \<and> mediaDir s2 = mediaDir s1
                 \<and> mediaDir s2 = (mediaDir s)(hash b \<mapsto> b))"
    using assms(6) m
    by (simp add: rest_media_created [OF a assms(6)]
        rest_media_noop [OF a, where m = ?m] media_of_created)
qed

text \<open>The same at concrete inputs: the content \<open>hi\<close> uploaded twice to an empty store.\<close>

theorem upload_twice_created_then_noop_witness:
  "parse_and_log_params example_parse (key_params ''k1'') = Inr (key_params ''k1'')
   \<and> getBlindedUTXOParam (key_params ''k1'') = Inr ''k1''
   \<and> findOne_blindedutxo ''k1'' (ds empty_store) = None
   \<and> parse_and_log_params example_parse (media_params ''m1'') = Inr (media_params ''m1'')
   \<and> getAttachmentIDParam (media_params ''m1'') = Inr ''m1''
   \<and> findOne_attachment_id ''m1'' (ds empty_store) = None
   \<and> ((case post_json_rpc example_parse base64 ''0.2.1'' 0 (request ''consignment.post''
       (key_params ''k1'') (JNumber 1)) (Some (''upload1'', [104, 105])) empty_store of
            (r1, s1) \<Rightarrow>
              (case post_json_rpc example_parse base64 ''0.2.1'' 0 (request ''consignment.post''
                  (key_params ''k1'') (JNumber 2)) (Some (''upload2'', [104, 105])) s1 of
                 (r2, s2) \<Rightarrow>
                   r1 = JsonResult (BoolResult True) \<and> r2 = JsonResult (BoolResult False)
                   \<and> consignments_of ''k1'' (ds s2) = [new_consignment
                       (base64 [104, 105]) ''k1'']
                   \<and> ds s2 = ds s1
                   \<and> consignmentDir s2 = consignmentDir s1
                   \<and> consignmentDir s2 =
                       (consignmentDir empty_store)(base64 [104, 105] \<mapsto> [104, 105])))
       \<and> (case post_consignment base64 (Some ''k1'') (Some
           (''upload1'', [104, 105])) empty_store of
            (r1, s1) \<Rightarrow>
              (case post_consignment base64 (Some ''k1'') (Some (''upload2'', [104, 105])) s1 of
                 (r2, s2) \<Rightarrow>
                   r1 = success \<and> r2 = success
                   \<and> consignments_of ''k1'' (ds s2) = [new_consignment
                       (base64 [104, 105]) ''k1'']
                   \<and> ds s2 = ds s1
                   \<and> consignmentDir s2 = consignmentDir s1
                   \<and> consignmentDir s2 =
                       (consignmentDir empty_store)(base64 [104, 105] \<mapsto> [104, 105])))
       \<and> (case post_json_rpc example_parse base64 ''0.2.1'' 0 (request ''media.post''
           (media_params ''m1'') (JNumber 1)) (Some (''upload1'', [104, 105])) empty_store of
            (r1, s1) \<Rightarrow>
              (case post_json_rpc example_parse base64 ''0.2.1'' 0 (request ''media.post''
                  (media_params ''m1'') (JNumber 2)) (Some (''upload2'', [104, 105])) s1 of
                 (r2, s2) \<Rightarrow>
                   r1 = JsonResult (BoolResult True) \<and> r2 = JsonResult (BoolResult False)
                   \<and> media_of ''m1'' (ds s2) = [new_media (base64 [104, 105]) ''m1'']
                   \<and> ds s2 = ds s1
                   \<and> mediaDir s2 = mediaDir s1
                   \<and> mediaDir s2 =
                       (mediaDir empty_store)(base64 [104, 105] \<mapsto> [104, 105])))
       \<and> (case post_media base64 (Some ''m1'') (Some
           (''upload1'', [104, 105])) empty_store of
            (r1, s1) \<Rightarrow>
              (case post_media base64 (Some ''m1'') (Some (''upload2'', [104, 105])) s1 of
                 (r2, s2) \<Rightarrow>
                   r1 = success \<and> r2 = success
                   \<and> media_of ''m1'' (ds s2) = [new_media (base64 [104, 105]) ''m1'']
                   \<and> ds s2 = ds s1
                   \<and> mediaDir s2 = mediaDir s1
                   \<and> mediaDir s2 =
                       (mediaDir empty_store)(base64 [104, 105] \<mapsto> [104, 105]))))"
proof -
  have h1: "parse_and_log_params example_parse (key_params ''k1'') = Inr (key_params ''k1'')"
    by (rule well_formed_params_pass)
  have h2: "getBlindedUTXOParam (key_params ''k1'') = Inr ''k1''"
    by (simp add: example_simps well_formed_params_pass)
  have h3: "findOne_blindedutxo ''k1'' (ds empty_store) = None"
    by (simp add: example_simps well_formed_params_pass)
  have h4: "parse_and_log_params example_parse (media_params ''m1'') = Inr (media_params ''m1'')"
    by (rule well_formed_params_pass)
  have h5: "getAttachmentIDParam (media_params ''m1'') = Inr ''m1''"
    by (simp add: example_simps well_formed_params_pass)
  have h6: "findOne_attachment_id ''m1'' (ds empty_store) = None"
    by (simp add: example_simps well_formed_params_pass)
  show ?thesis
    using h1 h2 h3 h4 h5 h6
      upload_twice_created_then_noop [where JSON_parse = "example_parse" and hash = "base64" and v
          = "''0.2.1''" and u = "0" and x = "key_params ''k1''" and p = "key_params ''k1''" and y
          = "media_params ''m1''" and q = "media_params ''m1''" and k = "''k1''" and a = "''m1''"
          and s = "empty_store" and b = "[104, 105]" and ?n1.0 = "''upload1''" and ?n2.0
          = "''upload2''" and i = "JNumber 1" and j = "JNumber 2",
        OF h1 h2 h3 h4 h5 h6]
    by blast
qed

text \<open>
  Claim C4. Uploading content whose digest differs from the digest of what is stored under
  an already used key fails with \<open>CannotChangeUploadedFile\<close> on the JSON-RPC surface and with
  status 403 on the REST surface; the datastore and both blob directories are unchanged, so
  the key still has its record and the record's blob its content. The digest function is
  assumed to tell the two contents apart. The two kinds of upload are taken one by one: the
  consignment part asks only for a consignment stored under the key \<open>k\<close>, the media part only
  for a media record stored under \<open>a\<close>, and neither asks anything of the other kind. On the
  JSON-RPC route the parameters \<open>x\<close> and \<open>y\<close> are required to get through the first lines of
  the handler.
\<close>

theorem conflicting_upload_rejected:
  "(parse_and_log_params JSON_parse x = Inr p \<and> getBlindedUTXOParam p = Inr k
      \<and> findOne_blindedutxo k (ds s) = Some c \<and> filename c = hash b
      \<and> consignmentDir s (filename c) = Some b \<and> hash b' \<noteq> hash b \<longrightarrow>
      (case post_json_rpc JSON_parse hash v u (request ''consignment.post'' x i) (Some (n, b')) s of
         (r, s') \<Rightarrow>
           r = JsonError CannotChangeUploadedFile
           \<and> ds s' = ds s \<and> consignmentDir s' = consignmentDir s \<and> mediaDir s' = mediaDir s
           \<and> findOne_blindedutxo k (ds s') = Some c
           \<and> consignmentDir s' (filename c) = Some b)
      \<and> (case post_consignment hash (Some k) (Some (n, b')) s of
         (r, s') \<Rightarrow>
           r = failure 403 ''Cannot change uploaded file!''
           \<and> ds s' = ds s \<and> consignmentDir s' = consignmentDir s \<and> mediaDir s' = mediaDir s
           \<and> findOne_blindedutxo k (ds s') = Some c
           \<and> consignmentDir s' (filename c) = Some b))
   \<and> (parse_and_log_params JSON_parse y = Inr q \<and> getAttachmentIDParam q = Inr a
      \<and> findOne_attachment_id a (ds s) = Some m \<and> media_filename m = hash b
      \<and> mediaDir s (media_filename m) = Some b \<and> hash b' \<noteq> hash b \<longrightarrow>
      (case post_json_rpc JSON_parse hash v u (request ''media.post'' y i) (Some (n, b')) s of
         (r, s') \<Rightarrow>
           r = JsonError CannotChangeUploadedFile
           \<and> ds s' = ds s \<and> consignmentDir s' = consignmentDir s \<and> mediaDir s' = mediaDir s
           \<and> findOne_attachment_id a (ds s') = Some m
           \<and> mediaDir s' (media_filename m) = Some b)
      \<and> (case post_media hash (Some a) (Some (n, b')) s of
         (r, s') \<Rightarrow>
           r = failure 403 ''Cannot change uploaded file!''
           \<and> ds s' = ds s \<and> consignmentDir s' = consignmentDir s \<and> mediaDir s' = mediaDir s
           \<and> findOne_attachment_id a (ds s') = Some m
           \<and> mediaDir s' (media_filename m) = Some b))"
proof (intro conjI impI)
  assume h: "parse_and_log_params JSON_parse x = Inr p \<and> getBlindedUTXOParam p = Inr k
      \<and> findOne_blindedutxo k (ds s) = Some c \<and> filename c = hash b
      \<and> consignmentDir s (filename c) = Some b \<and> hash b' \<noteq> hash b"
  then have k: "k \<noteq> []" and c: "filename c \<noteq> hash b'"
    by (auto dest: getBlindedUTXOParam_nonempty)
  from h have passed: "parse_and_log_params JSON_parse x = Inr p"
    and key: "getBlindedUTXOParam p = Inr k" and found: "findOne_blindedutxo k (ds s) = Some c"
    and blob: "consignmentDir s (filename c) = Some b"
    by blast+
  show "case post_json_rpc JSON_parse hash v u (request ''consignment.post'' x i)
               (Some (n, b')) s of
          (r, s') \<Rightarrow>
            r = JsonError CannotChangeUploadedFile
            \<and> ds s' = ds s \<and> consignmentDir s' = consignmentDir s \<and> mediaDir s' = mediaDir s
            \<and> findOne_blindedutxo k (ds s') = Some c
            \<and> consignmentDir s' (filename c) = Some b"
    using found blob
    by (simp add: rpc_consignment_post_conflict [where hash = hash and b = b',
          OF passed key found c])
  show "case post_consignment hash (Some k) (Some (n, b')) s of
          (r, s') \<Rightarrow>
            r = failure 403 ''Cannot change uploaded file!''
            \<and> ds s' = ds s \<and> consignmentDir s' = consignmentDir s \<and> mediaDir s' = mediaDir s
            \<and> findOne_blindedutxo k (ds s') = Some c
            \<and> consignmentDir s' (filename c) = Some b"
    using found blob
    by (simp add: rest_consignment_conflict [where hash = hash and b = b', OF k found c])
next
  assume h: "parse_and_log_params JSON_parse y = Inr q \<and> getAttachmentIDParam q = Inr a
      \<and> findOne_attachment_id a (ds s) = Some m \<and> media_filename m = hash b
      \<and> mediaDir s (media_filename m) = Some b \<and> hash b' \<noteq> hash b"
  then have a: "a \<noteq> []" and m: "media_filename m \<noteq> hash b'"
    by (auto dest: getAttachmentIDParam_nonempty)
  from h have passed: "parse_and_log_params JSON_parse y = Inr q"
    and key: "getAttachmentIDParam q = Inr a" and found: "findOne_attachment_id a (ds s) = Some m"
    and blob: "mediaDir s (media_filename m) = Some b"
    by blast+
  show "case post_json_rpc JSON_parse hash v u (request ''media.post'' y i) (Some (n, b')) s of
          (r, s') \<Rightarrow>
            r = JsonError CannotChangeUploadedFile
            \<and> ds s' = ds s \<and> consignmentDir s' = consignmentDir s \<and> mediaDir s' = mediaDir s
            \<and> findOne_attachment_id a (ds s') = Some m
            \<and> mediaDir s' (media_filename m) = Some b"
    using found blob
    by (simp add: rpc_media_post_conflict [where hash = hash and b = b', OF passed key found m])
  show "case post_media hash (Some a) (Some (n, b')) s of
          (r, s') \<Rightarrow>
            r = failure 403 ''Cannot change uploaded file!''
            \<and> ds s' = ds s \<and> consignmentDir s' = consignmentDir s \<and> mediaDir s' = mediaDir s
            \<and> findOne_attachment_id a (ds s') = Some m
            \<and> mediaDir s' (media_filename m) = Some b"
    using found blob
    by (simp add: rest_media_conflict [where hash = hash and b = b', OF a found m])
qed

text \<open>
  The same at concrete inputs, with the transport encoding, which is injective, in place of
  the digest: the consignment part on the store reached from the empty one by a single
  \<^verbatim>\<open>consignment.post\<close> of \<open>hi\<close>, which holds no media at all, and the media part on the
  example store; \<open>hj\<close> is uploaded over \<open>hi\<close>.
\<close>

theorem conflicting_upload_rejected_witness:
  "parse_and_log_params example_parse (key_params ''k1'') = Inr (key_params ''k1'')
   \<and> getBlindedUTXOParam (key_params ''k1'') = Inr ''k1''
   \<and> findOne_blindedutxo ''k1'' (ds after_one_upload) = Some (new_consignment
       (base64 [104, 105]) ''k1'')
   \<and> filename (new_consignment (base64 [104, 105]) ''k1'') = base64 [104, 105]
   \<and> consignmentDir after_one_upload (filename (new_consignment (base64 [104, 105]) ''k1''))
       = Some [104, 105]
   \<and> base64 [104, 106] \<noteq> base64 [104, 105]
   \<and> findOne_attachment_id ''m1'' (ds after_one_upload) = None
   \<and> ((case post_json_rpc example_parse base64 ''0.2.1'' 0 (request ''consignment.post''
       (key_params ''k1'') (JNumber 2)) (Some (''upload2'', [104, 106])) after_one_upload of
         (r, s') \<Rightarrow>
           r = JsonError CannotChangeUploadedFile
           \<and> ds s' = ds after_one_upload \<and> consignmentDir s'
               = consignmentDir after_one_upload \<and> mediaDir s' = mediaDir after_one_upload
           \<and> findOne_blindedutxo ''k1'' (ds s') = Some (new_consignment
               (base64 [104, 105]) ''k1'')
           \<and> consignmentDir s' (filename (new_consignment (base64 [104, 105]) ''k1''))
               = Some [104, 105])
      \<and> (case post_consignment base64 (Some ''k1'') (Some
          (''upload2'', [104, 106])) after_one_upload of
         (r, s') \<Rightarrow>
           r = failure 403 ''Cannot change uploaded file!''
           \<and> ds s' = ds after_one_upload \<and> consignmentDir s'
               = consignmentDir after_one_upload \<and> mediaDir s' = mediaDir after_one_upload
           \<and> findOne_blindedutxo ''k1'' (ds s') = Some (new_consignment
               (base64 [104, 105]) ''k1'')
           \<and> consignmentDir s' (filename (new_consignment (base64 [104, 105]) ''k1''))
               = Some [104, 105]))
   \<and> parse_and_log_params example_parse (media_params ''m1'') = Inr (media_params ''m1'')
   \<and> getAttachmentIDParam (media_params ''m1'') = Inr ''m1''
   \<and> findOne_attachment_id ''m1'' (ds example_store) = Some (new_media
       (base64 [104, 105]) ''m1'')
   \<and> media_filename (new_media (base64 [104, 105]) ''m1'') = base64 [104, 105]
   \<and> mediaDir example_store (media_filename (new_media (base64 [104, 105]) ''m1''))
       = Some [104, 105]
   \<and> base64 [104, 106] \<noteq> base64 [104, 105]
   \<and> ((case post_json_rpc example_parse base64 ''0.2.1'' 0 (request ''media.post''
       (media_params ''m1'') (JNumber 2)) (Some (''upload2'', [104, 106])) example_store of
         (r, s') \<Rightarrow>
           r = JsonError CannotChangeUploadedFile
           \<and> ds s' = ds example_store \<and> consignmentDir s' = consignmentDir example_store
               \<and> mediaDir s' = mediaDir example_store
           \<and> findOne_attachment_id ''m1'' (ds s') = Some (new_media
               (base64 [104, 105]) ''m1'')
           \<and> mediaDir s' (media_filename (new_media (base64 [104, 105]) ''m1''))
               = Some [104, 105])
      \<and> (case post_media base64 (Some ''m1'') (Some
          (''upload2'', [104, 106])) example_store of
         (r, s') \<Rightarrow>
           r = failure 403 ''Cannot change uploaded file!''
           \<and> ds s' = ds example_store \<and> consignmentDir s' = consignmentDir example_store
               \<and> mediaDir s' = mediaDir example_store
           \<and> findOne_attachment_id ''m1'' (ds s') = Some (new_media
               (base64 [104, 105]) ''m1'')
           \<and> mediaDir s' (media_filename (new_media (base64 [104, 105]) ''m1''))
               = Some [104, 105]))"
proof -
  have differ: "base64 [104, 106] \<noteq> base64 [104, 105]"
  proof
    assume "base64 [104, 106] = base64 [104, 105]"
    then have "base64_decode (base64 [104, 106]) = base64_decode (base64 [104, 105])"
      by simp
    then show False
      by (simp only: base64_decode_base64) simp
  qed
  have one: "parse_and_log_params example_parse (key_params ''k1'') = Inr (key_params ''k1'')
      \<and> getBlindedUTXOParam (key_params ''k1'') = Inr ''k1''
      \<and> findOne_blindedutxo ''k1'' (ds after_one_upload) = Some (new_consignment
          (base64 [104, 105]) ''k1'')
      \<and> filename (new_consignment (base64 [104, 105]) ''k1'') = base64 [104, 105]
      \<and> consignmentDir after_one_upload (filename (new_consignment
          (base64 [104, 105]) ''k1'')) = Some [104, 105]
      \<and> findOne_attachment_id ''m1'' (ds after_one_upload) = None"
    by (simp add: after_one_upload well_formed_params_pass)
      (simp add: example_simps)
  have two: "parse_and_log_params example_parse (media_params ''m1'') = Inr (media_params ''m1'')
      \<and> getAttachmentIDParam (media_params ''m1'') = Inr ''m1''
      \<and> findOne_attachment_id ''m1'' (ds example_store) = Some (new_media
          (base64 [104, 105]) ''m1'')
      \<and> media_filename (new_media (base64 [104, 105]) ''m1'') = base64 [104, 105]
      \<and> mediaDir example_store (media_filename (new_media (base64 [104, 105]) ''m1''))
          = Some [104, 105]"
    by (simp add: well_formed_params_pass) (simp add: example_simps)
  note first = conflicting_upload_rejected [where JSON_parse = "example_parse" and hash = "base64"
      and v = "''0.2.1''" and u = "0" and b = "[104, 105]" and ?b' = "[104, 106]" and n
      = "''upload2''" and i = "JNumber 2" and x = "key_params ''k1''" and p = "key_params ''k1''"
      and k = "''k1''" and s = "after_one_upload" and c = "new_consignment
      (base64 [104, 105]) ''k1''", THEN conjunct1]
  note second = conflicting_upload_rejected [where JSON_parse = "example_parse" and hash
      = "base64" and v = "''0.2.1''" and u = "0" and b = "[104, 105]" and ?b' = "[104, 106]" and n
      = "''upload2''" and i = "JNumber 2" and y = "media_params ''m1''" and q
      = "media_params ''m1''" and a = "''m1''" and s = "example_store" and m = "new_media
      (base64 [104, 105]) ''m1''", THEN conjunct2]
  from one differ have a1: "parse_and_log_params example_parse (key_params ''k1'') = Inr
      (key_params ''k1'') \<and> getBlindedUTXOParam (key_params ''k1'') = Inr ''k1''
      \<and> findOne_blindedutxo ''k1'' (ds after_one_upload) = Some (new_consignment
      (base64 [104, 105]) ''k1'') \<and> filename (new_consignment (base64 [104, 105]) ''k1'')
      = base64 [104, 105] \<and> consignmentDir after_one_upload (filename (new_consignment
      (base64 [104, 105]) ''k1'')) = Some [104, 105]
      \<and> base64 [104, 106] \<noteq> base64 [104, 105]"
    by blast
  from two differ have a2: "parse_and_log_params example_parse (media_params ''m1'') = Inr
      (media_params ''m1'') \<and> getAttachmentIDParam (media_params ''m1'') = Inr ''m1''
      \<and> findOne_attachment_id ''m1'' (ds example_store) = Some (new_media
      (base64 [104, 105]) ''m1'') \<and> media_filename (new_media (base64 [104, 105]) ''m1'')
      = base64 [104, 105] \<and> mediaDir example_store (media_filename (new_media
      (base64 [104, 105]) ''m1'')) = Some [104, 105]
      \<and> base64 [104, 106] \<noteq> base64 [104, 105]"
    by blast
  note k1 = mp [OF first a1]
  note k2 = mp [OF second a2]
  show ?thesis
    using differ one two k1 k2 by - (elim conjE, intro conjI, assumption+)
qed

text \<open>
  Claim C9. After a successful upload of the content \<open>b\<close> under a fresh key, a get with that
  key returns the transport encoding of \<open>b\<close>, which decodes to exactly \<open>b\<close>; a get with
  another key that has no record fails with the not-found error of its kind (status 404 on the
  REST surface). This holds for consignments and for media, for an upload through either
  surface (both reach the same state), and a get changes nothing. On the JSON-RPC route the
  parameters of the upload and of the two gets are required to get through the first lines
  of the handler.
\<close>

theorem upload_then_get_round_trip:
  assumes "parse_and_log_params JSON_parse x = Inr p"
    and "getBlindedUTXOParam p = Inr k" and "findOne_blindedutxo k (ds s) = None"
    and "parse_and_log_params JSON_parse x' = Inr p'"
    and "getBlindedUTXOParam p' = Inr k'" and "k' \<noteq> k"
    and "findOne_blindedutxo k' (ds s) = None"
    and "parse_and_log_params JSON_parse y = Inr q"
    and "getAttachmentIDParam q = Inr a" and "findOne_attachment_id a (ds s) = None"
    and "parse_and_log_params JSON_parse y' = Inr q'"
    and "getAttachmentIDParam q' = Inr a'" and "a' \<noteq> a"
    and "findOne_attachment_id a' (ds s) = None"
  shows "(case post_json_rpc JSON_parse hash v u (request ''consignment.post'' x i) (Some (n, b)) s of
            (r1, s1) \<Rightarrow>
              r1 = JsonResult (BoolResult True)
              \<and> post_json_rpc JSON_parse hash v u (request ''consignment.get'' x j) None s1
                  = (JsonResult (StringResult (base64 b)), s1)
              \<and> post_json_rpc JSON_parse hash v u (request ''consignment.get'' x' j) None s1
                  = (JsonError NotFoundConsignment, s1)
              \<and> get_consignment k s1
                  = (\<lparr>status = 200,
                      body = [(''success'', JBool True), (''consignment'', JString (base64 b))]\<rparr>,
                     s1)
              \<and> get_consignment k' s1 = (failure 404 ''No consignment found!'', s1)
              \<and> post_consignment hash (Some k) (Some (n, b)) s = (success, s1))
       \<and> (case post_json_rpc JSON_parse hash v u (request ''media.post'' y i) (Some (n, b)) s of
            (r1, s1) \<Rightarrow>
              r1 = JsonResult (BoolResult True)
              \<and> post_json_rpc JSON_parse hash v u (request ''media.get'' y j) None s1
                  = (JsonResult (StringResult (base64 b)), s1)
              \<and> post_json_rpc JSON_parse hash v u (request ''media.get'' y' j) None s1
                  = (JsonError NotFoundMedia, s1)
              \<and> get_media a s1
                  = (\<lparr>status = 200,
                      body = [(''success'', JBool True), (''media'', JString (base64 b))]\<rparr>,
                     s1)
              \<and> get_media a' s1 = (failure 404 ''No media found!'', s1)
              \<and> post_media hash (Some a) (Some (n, b)) s = (success, s1))
       \<and> base64_decode (base64 b) = Some b"
proof -
  have k: "k \<noteq> []" "k' \<noteq> []" and a: "a \<noteq> []" "a' \<noteq> []"
    using assms by (simp_all add: getBlindedUTXOParam_nonempty getAttachmentIDParam_nonempty)
  have c: "filename (new_consignment (hash b) k) = hash b"
    and m: "media_filename (new_media (hash b) a) = hash b"
    by (simp_all add: new_consignment_def new_media_def)
  show ?thesis
    using assms k a c m
    by (simp add: rpc_consignment_post_created [OF assms(1,2,3)]
        rpc_media_post_created [OF assms(8,9,10)]
        rest_consignment_created [OF k(1) assms(3)] rest_media_created [OF a(1) assms(10)]
        rpc_consignment_get [OF assms(1)] rpc_consignment_get [OF assms(4)]
        rpc_media_get [OF assms(8)] rpc_media_get [OF assms(11)]
        get_consignment_def get_media_def readFileSync_def
        findOne_blindedutxo_created findOne_attachment_id_created
        findOne_blindedutxo_created_other findOne_attachment_id_created_other
        base64_decode_base64)
qed

text \<open>
  The same at concrete inputs: the five bytes of \<open>hello\<close> uploaded under \<open>k1\<close> (and
  \<open>m1\<close>), then fetched; \<open>k2\<close> and \<open>m2\<close> are not found.
\<close>

theorem upload_then_get_round_trip_witness:
  "parse_and_log_params example_parse (key_params ''k1'') = Inr (key_params ''k1'')
   \<and> getBlindedUTXOParam (key_params ''k1'') = Inr ''k1''
   \<and> findOne_blindedutxo ''k1'' (ds empty_store) = None
   \<and> parse_and_log_params example_parse (key_params ''k2'') = Inr (key_params ''k2'')
   \<and> getBlindedUTXOParam (key_params ''k2'') = Inr ''k2''
   \<and> ''k2'' \<noteq> ''k1''
   \<and> findOne_blindedutxo ''k2'' (ds empty_store) = None
   \<and> parse_and_log_params example_parse (media_params ''m1'') = Inr (media_params ''m1'')
   \<and> getAttachmentIDParam (media_params ''m1'') = Inr ''m1''
   \<and> findOne_attachment_id ''m1'' (ds empty_store) = None
   \<and> parse_and_log_params example_parse (media_params ''m2'') = Inr (media_params ''m2'')
   \<and> getAttachmentIDParam (media_params ''m2'') = Inr ''m2''
   \<and> ''m2'' \<noteq> ''m1''
   \<and> findOne_attachment_id ''m2'' (ds empty_store) = None
   \<and> ((case post_json_rpc example_parse base64 ''0.2.1'' 0 (request ''consignment.post''
       (key_params ''k1'') (JNumber 1)) (Some
       (''upload1'', [104, 101, 108, 108, 111])) empty_store of
            (r1, s1) \<Rightarrow>
              r1 = JsonResult (BoolResult True)
              \<and> post_json_rpc example_parse base64 ''0.2.1'' 0 (request ''consignment.get''
                  (key_params ''k1'') (JNumber 2)) None s1
                  = (JsonResult (StringResult (base64 [104, 101, 108, 108, 111])), s1)
              \<and> post_json_rpc example_parse base64 ''0.2.1'' 0 (request ''consignment.get''
                  (key_params ''k2'') (JNumber 2)) None s1
                  = (JsonError NotFoundConsignment, s1)
              \<and> get_consignment ''k1'' s1
                  = (\<lparr>status = 200,
                      body = [(''success'', JBool True), (''consignment'', JString
                          (base64 [104, 101, 108, 108, 111]))]\<rparr>,
                     s1)
              \<and> get_consignment ''k2'' s1 = (failure 404 ''No consignment found!'', s1)
              \<and> post_consignment base64 (Some ''k1'') (Some
                  (''upload1'', [104, 101, 108, 108, 111])) empty_store = (success, s1))
       \<and> (case post_json_rpc example_parse base64 ''0.2.1'' 0 (request ''media.post''
           (media_params ''m1'') (JNumber 1)) (Some
           (''upload1'', [104, 101, 108, 108, 111])) empty_store of
            (r1, s1) \<Rightarrow>
              r1 = JsonResult (BoolResult True)
              \<and> post_json_rpc example_parse base64 ''0.2.1'' 0 (request ''media.get''
                  (media_params ''m1'') (JNumber 2)) None s1
                  = (JsonResult (StringResult (base64 [104, 101, 108, 108, 111])), s1)
              \<and> post_json_rpc example_parse base64 ''0.2.1'' 0 (request ''media.get''
                  (media_params ''m2'') (JNumber 2)) None s1
                  = (JsonError NotFoundMedia, s1)
              \<and> get_media ''m1'' s1
                  = (\<lparr>status = 200,
                      body = [(''success'', JBool True), (''media'', JString
                          (base64 [104, 101, 108, 108, 111]))]\<rparr>,
                     s1)
              \<and> get_media ''m2'' s1 = (failure 404 ''No media found!'', s1)
              \<and> post_media base64 (Some ''m1'') (Some
                  (''upload1'', [104, 101, 108, 108, 111])) empty_store = (success, s1))
       \<and> base64_decode (base64 [104, 101, 108, 108, 111]) = Some [104, 101, 108, 108, 111])"
proof -
  have h1: "parse_and_log_params example_parse (key_params ''k1'') = Inr (key_params ''k1'')"
    by (rule well_formed_params_pass)
  have h2: "getBlindedUTXOParam (key_params ''k1'') = Inr ''k1''"
    by (simp add: example_simps well_formed_params_pass)
  have h3: "findOne_blindedutxo ''k1'' (ds empty_store) = None"
    by (simp add: example_simps well_formed_params_pass)
  have h4: "parse_and_log_params example_parse (key_params ''k2'') = Inr (key_params ''k2'')"
    by (rule well_formed_params_pass)
  have h5: "getBlindedUTXOParam (key_params ''k2'') = Inr ''k2''"
    by (simp add: example_simps well_formed_params_pass)
  have h6: "''k2'' \<noteq> ''k1''"
    by (simp add: example_simps well_formed_params_pass)
  have h7: "findOne_blindedutxo ''k2'' (ds empty_store) = None"
    by (simp add: example_simps well_formed_params_pass)
  have h8: "parse_and_log_params example_parse (media_params ''m1'') = Inr (media_params ''m1'')"
    by (rule well_formed_params_pass)
  have h9: "getAttachmentIDParam (media_params ''m1'') = Inr ''m1''"
    by (simp add: example_simps well_formed_params_pass)
  have h10: "findOne_attachment_id ''m1'' (ds empty_store) = None"
    by (simp add: example_simps well_formed_params_pass)
  have h11: "parse_and_log_params example_parse (media_params ''m2'') = Inr (media_params ''m2'')"
    by (rule well_formed_params_pass)
  have h12: "getAttachmentIDParam (media_params ''m2'') = Inr ''m2''"
    by (simp add: example_simps well_formed_params_pass)
  have h13: "''m2'' \<noteq> ''m1''"
    by (simp add: example_simps well_formed_params_pass)
  have h14: "findOne_attachment_id ''m2'' (ds empty_store) = None"
    by (simp add: example_simps well_formed_params_pass)
  show ?thesis
    using h1 h2 h3 h4 h5 h6 h7 h8 h9 h10 h11 h12 h13 h14
      upload_then_get_round_trip [where JSON_parse = "example_parse" and hash = "base64" and v
          = "''0.2.1''" and u = "0" and x = "key_params ''k1''" and p = "key_params ''k1''"
          and ?x' = "key_params ''k2''" and ?p' = "key_params ''k2''" and y
          = "media_params ''m1''" and q = "media_params ''m1''" and ?y' = "media_params ''m2''"
          and ?q' = "media_params ''m2''" and k = "''k1''" and ?k' = "''k2''" and a = "''m1''"
          and ?a' = "''m2''" and s = "empty_store" and b = "[104, 101, 108, 108, 111]" and n
          = "''upload1''" and i = "JNumber 1" and j = "JNumber 2",
        OF h1 h2 h3 h4 h5 h6 h7 h8 h9 h10 h11 h12 h13 h14]
    by blast
qed

section \<open>Parameter validation\<close>

lemma upload_then_unlink:
  "(case upload_single part s of (file, s1) \<Rightarrow> unlink_unhandled file s1)
     = staged_file_removed part s"
  by (simp add: upload_single_def unlink_unhandled_def existsSync_def unlinkSync_def
      staged_file_removed_def split: option.splits prod.splits)

lemma upload_then_unlink_twice:
  "(case upload_single part s of (file, s1) \<Rightarrow> unlink_unhandled file (unlink_unhandled file s1))
     = staged_file_removed part s"
  by (simp add: upload_single_def unlink_unhandled_def existsSync_def unlinkSync_def
      staged_file_removed_def split: option.splits prod.splits)

lemma rpc_invalid_blinded_utxo:
  assumes "parse_and_log_params JSON_parse x = Inr p"
    and "getBlindedUTXOParam p = Inl e"
  shows "post_json_rpc JSON_parse hash v u (request ''consignment.get'' x i) part s
           = (JsonError e, staged_file_removed part s)"
    and "post_json_rpc JSON_parse hash v u (request ''consignment.post'' x i) part s
           = (JsonError e, staged_file_removed part s)"
    and "post_json_rpc JSON_parse hash v u (request ''ack.get'' x i) part s
           = (JsonError e, staged_file_removed part s)"
    and "post_json_rpc JSON_parse hash v u (request ''ack.post'' x i) part s
           = (JsonError e, staged_file_removed part s)"
  using assms(2) upload_then_unlink [of part s] upload_then_unlink_twice [of part s]
  by (simp_all add: post_json_rpc_passed [OF assms(1)] call_method_def
      consignment_get_def consignment_post_invalid ack_get_def ack_post_def getConsignment_def
      split: prod.splits)

lemma rpc_invalid_attachment_id:
  assumes "parse_and_log_params JSON_parse x = Inr p"
    and "getAttachmentIDParam p = Inl e"
  shows "post_json_rpc JSON_parse hash v u (request ''media.get'' x i) part s
           = (JsonError e, staged_file_removed part s)"
    and "post_json_rpc JSON_parse hash v u (request ''media.post'' x i) part s
           = (JsonError e, staged_file_removed part s)"
  using assms(2) upload_then_unlink [of part s] upload_then_unlink_twice [of part s]
  by (simp_all add: post_json_rpc_passed [OF assms(1)] call_method_def
      media_get_def media_post_invalid
      split: prod.splits)

lemma rpc_ack_post_unknown:
  assumes "parse_and_log_params JSON_parse x = Inr p"
    and "getBlindedUTXOParam p = Inr k" and "findOne_blindedutxo k (ds s) = None"
  shows "post_json_rpc JSON_parse hash v u (request ''ack.post'' x i) part s
           = (JsonError NotFoundConsignment, staged_file_removed part s)"
proof (cases part)
  case None
  with assms show ?thesis
    by (simp add: post_json_rpc_passed [OF assms(1)] call_method_def upload_single_def
        ack_post_def getConsignment_def unlink_unhandled_None staged_file_removed_def)
next
  case (Some nb)
  obtain n b where "nb = (n, b)" by (cases nb)
  with Some assms show ?thesis
    by (simp add: post_json_rpc_passed [OF assms(1)] call_method_def upload_single_def
        ack_post_def getConsignment_def unlink_unhandled_staged staged_file_removed_def)
qed

lemma rpc_ack_post_invalid_ack:
  assumes "parse_and_log_params JSON_parse x = Inr p"
    and "getBlindedUTXOParam p = Inr k" and "findOne_blindedutxo k (ds s) = Some c"
    and "getAckParam p = Inl e"
  shows "post_json_rpc JSON_parse hash v u (request ''ack.post'' x i) part s
           = (JsonError e, staged_file_removed part s)"
proof (cases part)
  case None
  with assms show ?thesis
    by (simp add: post_json_rpc_passed [OF assms(1)] call_method_def upload_single_def
        ack_post_def getConsignment_def unlink_unhandled_None staged_file_removed_def)
next
  case (Some nb)
  obtain n b where "nb = (n, b)" by (cases nb)
  with Some assms show ?thesis
    by (simp add: post_json_rpc_passed [OF assms(1)] call_method_def upload_single_def
        ack_post_def getConsignment_def unlink_unhandled_staged staged_file_removed_def)
qed

lemma staged_file_removed_frame:
  "ds (staged_file_removed part s) = ds s"
  "consignmentDir (staged_file_removed part s) = consignmentDir s"
  "mediaDir (staged_file_removed part s) = mediaDir s"
  "tempDir (staged_file_removed (Some (n, b)) s) n = None"
  "staged_file_removed None s = s"
  by (simp_all add: staged_file_removed_def split: option.splits)

lemma getBlindedUTXOParam_cases:
  "getBlindedUTXOParam p =
     (if isDictionary p then
        (case map_of (entries_of p) ''blinded_utxo'' of
           None \<Rightarrow> Inl MissingBlindedUTXO
         | Some (JString t) \<Rightarrow> if t = [] then Inl InvalidBlindedUTXO else Inr t
         | Some _ \<Rightarrow> Inl InvalidBlindedUTXO)
      else Inl MissingBlindedUTXO)"
  by (simp add: getBlindedUTXOParam_def split: option.splits json.splits)

lemma getAttachmentIDParam_cases:
  "getAttachmentIDParam p =
     (if isDictionary p then
        (case map_of (entries_of p) ''attachment_id'' of
           None \<Rightarrow> Inl MissingAttachmentID
         | Some (JString t) \<Rightarrow> if t = [] then Inl InvalidAttachmentID else Inr t
         | Some _ \<Rightarrow> Inl InvalidAttachmentID)
      else Inl MissingAttachmentID)"
  by (simp add: getAttachmentIDParam_def split: option.splits json.splits)

lemma getAckParam_cases:
  "getAckParam p =
     (if isDictionary p then
        (case map_of (entries_of p) ''ack'' of
           None \<Rightarrow> Inl MissingAck
         | Some (JBool a) \<Rightarrow> Inr a
         | Some _ \<Rightarrow> Inl InvalidAck)
      else Inl MissingAck)"
  by (simp add: getAckParam_def split: option.splits json.splits)

text \<open>
  Claim C8 says that a missing required parameter always fails with its \<open>Missing\<close> error, an
  ill-shaped one with its \<open>Invalid\<close> error, and that this is decided before the store is
  touched. \<^verbatim>\<open>ack.post\<close> does otherwise with its second parameter: it looks the consignment up
  first. The same call without \<open>ack\<close> fails with \<open>NotFoundConsignment\<close> on a store that does
  not have the key and with \<open>MissingAck\<close> on one that has it.
\<close>

theorem ack_post_validates_ack_after_lookup:
  "getAckParam (key_params ''k1'') = Inl MissingAck
   \<and> post_json_rpc example_parse base64 ''0.2.1'' 0
         (request ''ack.post'' (key_params ''k1'') (JNumber 1)) None empty_store
       = (JsonError NotFoundConsignment, empty_store)
   \<and> post_json_rpc example_parse base64 ''0.2.1'' 0
         (request ''ack.post'' (key_params ''k1'') (JNumber 1)) None example_store
       = (JsonError MissingAck, example_store)"
  by (simp add: route_simps example_simps)

text \<open>
  Claim C8, amended. Take a request whose parameters get through the first lines of the
  handler, as they are or, if they came as a string, as \<^verbatim>\<open>JSON.parse\<close> reads them, and let
  \<open>p\<close> be what reaches the method. The key parameter (\<open>blinded_utxo\<close>, \<open>attachment_id\<close>) is
  checked before anything else: when it is absent from \<open>p\<close>, or \<open>p\<close> is no dictionary, the call
  fails with the \<open>Missing\<close> error, when it is present but not a non-empty string with the
  \<open>Invalid\<close> error, on every store alike. In \<^verbatim>\<open>ack.post\<close> the \<open>ack\<close> parameter is checked
  after the consignment has been looked up: with an unknown key the call fails with
  \<open>NotFoundConsignment\<close> whatever \<open>ack\<close> is, and with a known key an absent \<open>ack\<close> fails with
  \<open>MissingAck\<close> and one that is no boolean with \<open>InvalidAck\<close>. Every such failing call leaves
  the datastore and the blob directories as they were, and a file that came with the request
  is gone from the staging directory afterwards.
\<close>

theorem validation_failure_changes_nothing:
  "(parse_and_log_params JSON_parse x = Inr p \<and> getBlindedUTXOParam p = Inl e \<longrightarrow>
      post_json_rpc JSON_parse hash v u (request ''consignment.get'' x i) part s
        = (JsonError e, staged_file_removed part s)
      \<and> post_json_rpc JSON_parse hash v u (request ''consignment.post'' x i) part s
        = (JsonError e, staged_file_removed part s)
      \<and> post_json_rpc JSON_parse hash v u (request ''ack.get'' x i) part s
        = (JsonError e, staged_file_removed part s)
      \<and> post_json_rpc JSON_parse hash v u (request ''ack.post'' x i) part s
        = (JsonError e, staged_file_removed part s))
   \<and> (parse_and_log_params JSON_parse x = Inr p \<and> getAttachmentIDParam p = Inl e \<longrightarrow>
      post_json_rpc JSON_parse hash v u (request ''media.get'' x i) part s
        = (JsonError e, staged_file_removed part s)
      \<and> post_json_rpc JSON_parse hash v u (request ''media.post'' x i) part s
        = (JsonError e, staged_file_removed part s))
   \<and> (parse_and_log_params JSON_parse x = Inr p \<and> getBlindedUTXOParam p = Inr k
        \<and> findOne_blindedutxo k (ds s) = None \<longrightarrow>
      post_json_rpc JSON_parse hash v u (request ''ack.post'' x i) part s
        = (JsonError NotFoundConsignment, staged_file_removed part s))
   \<and> (parse_and_log_params JSON_parse x = Inr p \<and> getBlindedUTXOParam p = Inr k
        \<and> findOne_blindedutxo k (ds s) = Some c \<and> getAckParam p = Inl e \<longrightarrow>
      post_json_rpc JSON_parse hash v u (request ''ack.post'' x i) part s
        = (JsonError e, staged_file_removed part s))
   \<and> ds (staged_file_removed part s) = ds s
   \<and> consignmentDir (staged_file_removed part s) = consignmentDir s
   \<and> mediaDir (staged_file_removed part s) = mediaDir s
   \<and> tempDir (staged_file_removed (Some (n, b)) s) n = None
   \<and> staged_file_removed None s = s
   \<and> getBlindedUTXOParam p =
       (if isDictionary p then
          (case map_of (entries_of p) ''blinded_utxo'' of
             None \<Rightarrow> Inl MissingBlindedUTXO
           | Some (JString t) \<Rightarrow> if t = [] then Inl InvalidBlindedUTXO else Inr t
           | Some _ \<Rightarrow> Inl InvalidBlindedUTXO)
        else Inl MissingBlindedUTXO)
   \<and> getAttachmentIDParam p =
       (if isDictionary p then
          (case map_of (entries_of p) ''attachment_id'' of
             None \<Rightarrow> Inl MissingAttachmentID
           | Some (JString t) \<Rightarrow> if t = [] then Inl InvalidAttachmentID else Inr t
           | Some _ \<Rightarrow> Inl InvalidAttachmentID)
        else Inl MissingAttachmentID)
   \<and> getAckParam p =
       (if isDictionary p then
          (case map_of (entries_of p) ''ack'' of
             None \<Rightarrow> Inl MissingAck
           | Some (JBool a) \<Rightarrow> Inr a
           | Some _ \<Rightarrow> Inl InvalidAck)
        else Inl MissingAck)"
proof (intro conjI impI)
  assume "parse_and_log_params JSON_parse x = Inr p \<and> getBlindedUTXOParam p = Inl e"
  then have passed: "parse_and_log_params JSON_parse x = Inr p"
    and invalid: "getBlindedUTXOParam p = Inl e"
    by simp_all
  show "post_json_rpc JSON_parse hash v u (request ''consignment.get'' x i) part s
          = (JsonError e, staged_file_removed part s)"
    and "post_json_rpc JSON_parse hash v u (request ''consignment.post'' x i) part s
          = (JsonError e, staged_file_removed part s)"
    and "post_json_rpc JSON_parse hash v u (request ''ack.get'' x i) part s
          = (JsonError e, staged_file_removed part s)"
    and "post_json_rpc JSON_parse hash v u (request ''ack.post'' x i) part s
          = (JsonError e, staged_file_removed part s)"
    by (rule rpc_invalid_blinded_utxo [OF passed invalid])+
next
  assume "parse_and_log_params JSON_parse x = Inr p \<and> getAttachmentIDParam p = Inl e"
  then have passed: "parse_and_log_params JSON_parse x = Inr p"
    and invalid: "getAttachmentIDParam p = Inl e"
    by simp_all
  show "post_json_rpc JSON_parse hash v u (request ''media.get'' x i) part s
          = (JsonError e, staged_file_removed part s)"
    and "post_json_rpc JSON_parse hash v u (request ''media.post'' x i) part s
          = (JsonError e, staged_file_removed part s)"
    by (rule rpc_invalid_attachment_id [OF passed invalid])+
next
  assume "parse_and_log_params JSON_parse x = Inr p \<and> getBlindedUTXOParam p = Inr k
            \<and> findOne_blindedutxo k (ds s) = None"
  then show "post_json_rpc JSON_parse hash v u (request ''ack.post'' x i) part s
               = (JsonError NotFoundConsignment, staged_file_removed part s)"
    by (simp add: rpc_ack_post_unknown)
next
  assume "parse_and_log_params JSON_parse x = Inr p \<and> getBlindedUTXOParam p = Inr k
            \<and> findOne_blindedutxo k (ds s) = Some c \<and> getAckParam p = Inl e"
  then show "post_json_rpc JSON_parse hash v u (request ''ack.post'' x i) part s
               = (JsonError e, staged_file_removed part s)"
    by (simp add: rpc_ack_post_invalid_ack)
qed (simp_all only: staged_file_removed_frame
    getBlindedUTXOParam_cases [of p] getAttachmentIDParam_cases [of p] getAckParam_cases [of p])

text \<open>
  The amended claim at concrete calls: no parameters at all with a file attached, the
  parameters \<open>{}\<close> sent as a string, an empty attachment id, an unknown key, and a known key
  without \<open>ack\<close>.
\<close>

theorem validation_failure_changes_nothing_witness:
  "parse_and_log_params example_parse None = Inr None
   \<and> getBlindedUTXOParam None = Inl MissingBlindedUTXO
   \<and> post_json_rpc example_parse base64 ''0.2.1'' 0 (request ''consignment.post'' None (JNumber 1))
         (Some (''upload1'', [104, 106])) example_store
       = (JsonError MissingBlindedUTXO,
          staged_file_removed (Some (''upload1'', [104, 106])) example_store)
   \<and> ds (staged_file_removed (Some (''upload1'', [104, 106])) example_store) = ds example_store
   \<and> consignmentDir (staged_file_removed (Some (''upload1'', [104, 106])) example_store)
       = consignmentDir example_store
   \<and> tempDir (staged_file_removed (Some (''upload1'', [104, 106])) example_store) ''upload1'' = None
   \<and> parse_and_log_params example_parse (Some (JString ''{}'')) = Inr (Some (JObject []))
   \<and> getBlindedUTXOParam (Some (JObject [])) = Inl MissingBlindedUTXO
   \<and> post_json_rpc example_parse base64 ''0.2.1'' 0
         (request ''consignment.post'' (Some (JString ''{}'')) (JNumber 1))
         (Some (''upload1'', [104, 106])) example_store
       = (JsonError MissingBlindedUTXO,
          staged_file_removed (Some (''upload1'', [104, 106])) example_store)
   \<and> parse_and_log_params example_parse (media_params []) = Inr (media_params [])
   \<and> getAttachmentIDParam (media_params []) = Inl InvalidAttachmentID
   \<and> post_json_rpc example_parse base64 ''0.2.1'' 0
         (request ''media.get'' (media_params []) (JNumber 1)) None example_store
       = (JsonError InvalidAttachmentID, example_store)
   \<and> parse_and_log_params example_parse (key_params ''k2'') = Inr (key_params ''k2'')
   \<and> getBlindedUTXOParam (key_params ''k2'') = Inr ''k2''
   \<and> findOne_blindedutxo ''k2'' (ds example_store) = None
   \<and> post_json_rpc example_parse base64 ''0.2.1'' 0
         (request ''ack.post'' (key_params ''k2'') (JNumber 1)) None example_store
       = (JsonError NotFoundConsignment, example_store)
   \<and> parse_and_log_params example_parse (key_params ''k1'') = Inr (key_params ''k1'')
   \<and> getBlindedUTXOParam (key_params ''k1'') = Inr ''k1''
   \<and> findOne_blindedutxo ''k1'' (ds example_store)
       = Some (new_consignment (base64 [104, 105]) ''k1'')
   \<and> getAckParam (key_params ''k1'') = Inl MissingAck
   \<and> post_json_rpc example_parse base64 ''0.2.1'' 0
         (request ''ack.post'' (key_params ''k1'') (JNumber 1)) None example_store
       = (JsonError MissingAck, example_store)"
proof -
  have h1: "parse_and_log_params example_parse None = Inr None
              \<and> getBlindedUTXOParam None = Inl MissingBlindedUTXO"
    by (simp add: parse_and_log_params_def log_params_def getBlindedUTXOParam_def)
  have h2: "parse_and_log_params example_parse (Some (JString ''{}'')) = Inr (Some (JObject []))
              \<and> getBlindedUTXOParam (Some (JObject [])) = Inl MissingBlindedUTXO"
    by (simp add: parse_and_log_params_def log_params_def joinEntries_throws_def
        example_parse_def getBlindedUTXOParam_def)
  have h3: "parse_and_log_params example_parse (media_params []) = Inr (media_params [])
              \<and> getAttachmentIDParam (media_params []) = Inl InvalidAttachmentID"
    by (simp add: well_formed_params_pass) (simp add: example_simps)
  have h4: "parse_and_log_params example_parse (key_params ''k2'') = Inr (key_params ''k2'')
              \<and> getBlindedUTXOParam (key_params ''k2'') = Inr ''k2''
              \<and> findOne_blindedutxo ''k2'' (ds example_store) = None"
    by (simp add: well_formed_params_pass) (simp add: example_simps)
  have h5: "parse_and_log_params example_parse (key_params ''k1'') = Inr (key_params ''k1'')
              \<and> getBlindedUTXOParam (key_params ''k1'') = Inr ''k1''
              \<and> findOne_blindedutxo ''k1'' (ds example_store)
                  = Some (new_consignment (base64 [104, 105]) ''k1'')
              \<and> getAckParam (key_params ''k1'') = Inl MissingAck"
    by (simp add: well_formed_params_pass) (simp add: example_simps)
  note t1 = validation_failure_changes_nothing [where JSON_parse = example_parse
      and x = None and p = None and e = MissingBlindedUTXO
      and hash = base64 and v = "''0.2.1''" and u = 0 and i = "JNumber 1"
      and part = "Some (''upload1'', [104, 106])" and s = example_store
      and n = "''upload1''" and b = "[104, 106]"]
  note t2 = validation_failure_changes_nothing [where JSON_parse = example_parse
      and x = "Some (JString ''{}'')" and p = "Some (JObject [])" and e = MissingBlindedUTXO
      and hash = base64 and v = "''0.2.1''" and u = 0 and i = "JNumber 1"
      and part = "Some (''upload1'', [104, 106])" and s = example_store]
  note t3 = validation_failure_changes_nothing [where JSON_parse = example_parse
      and x = "media_params []" and p = "media_params []"
      and e = InvalidAttachmentID and hash = base64 and v = "''0.2.1''" and u = 0
      and i = "JNumber 1" and part = None and s = example_store]
  note t4 = validation_failure_changes_nothing [where JSON_parse = example_parse
      and x = "key_params ''k2''" and p = "key_params ''k2''" and k = "''k2''"
      and hash = base64 and v = "''0.2.1''" and u = 0 and i = "JNumber 1" and part = None
      and s = example_store]
  note t5 = validation_failure_changes_nothing [where JSON_parse = example_parse
      and x = "key_params ''k1''" and p = "key_params ''k1''" and k = "''k1''"
      and c = "new_consignment (base64 [104, 105]) ''k1''" and e = MissingAck
      and hash = base64 and v = "''0.2.1''" and u = 0 and i = "JNumber 1" and part = None
      and s = example_store]
  show ?thesis
    using h1 h2 h3 h4 h5 t1 t2 t3 t4 t5 by metis
qed

section \<open>The legacy acknowledgment routes\<close>

lemma post_ack_responded:
  assumes "k \<noteq> []" and "findOne_blindedutxo k (ds s) = Some c" and "truthy (responded c)"
  shows "post_ack (Some k) s = (failure 403 ''Already responded!'', s)"
    and "post_nack (Some k) s = (failure 403 ''Already responded!'', s)"
  using assms by (simp_all add: post_ack_def post_nack_def field_missing_def field_value_def)

lemma post_ack_fresh:
  assumes "k \<noteq> []" and "findOne_blindedutxo k (ds s) = Some c" and "\<not> truthy (responded c)"
  shows "post_ack (Some k) s =
           (success,
            s\<lparr>ds := update_blindedutxo k
                      (\<lambda>c. c\<lparr>ack := Some True, nack := Some False, responded := Some True\<rparr>)
                      (ds s)\<rparr>)"
    and "post_nack (Some k) s =
           (success,
            s\<lparr>ds := update_blindedutxo k
                      (\<lambda>c. c\<lparr>nack := Some True, ack := Some False, responded := Some True\<rparr>)
                      (ds s)\<rparr>)"
  using assms by (simp_all add: post_ack_def post_nack_def field_missing_def field_value_def)

lemma ack_post_same_value:
  assumes "k \<noteq> []" and "findOne_blindedutxo k (ds s) = Some c" and "ack c = Some a"
  shows "ack_post (ack_params k a) s = (Inr False, s)"
  using assms
  by (simp add: ack_post_def getConsignment_def getBlindedUTXOParam_def getAckParam_def
      ack_params_def)

text \<open>
  What the legacy routes do by themselves. On a record whose \<open>responded\<close> flag is set, \<^verbatim>\<open>POST /ack\<close>
  and \<^verbatim>\<open>POST /nack\<close> fail with status 403 and "Already responded!" and change nothing. On a
  record without the flag, either route succeeds and sets it, so that any later \<^verbatim>\<open>POST /ack\<close>
  or \<^verbatim>\<open>POST /nack\<close> fails with that error, also the one that repeats the recorded value,
  whereas \<^verbatim>\<open>ack.post\<close> with the recorded value returns false without an error.
\<close>

lemma legacy_ack_nack_only_once:
  assumes "k \<noteq> []" and "findOne_blindedutxo k (ds s) = Some c"
  shows "(truthy (responded c) \<longrightarrow>
            post_ack (Some k) s = (failure 403 ''Already responded!'', s)
            \<and> post_nack (Some k) s = (failure 403 ''Already responded!'', s))
       \<and> (\<not> truthy (responded c) \<longrightarrow>
            (case post_ack (Some k) s of
               (r1, s1) \<Rightarrow>
                 r1 = success
                 \<and> findOne_blindedutxo k (ds s1)
                     = Some (c\<lparr>ack := Some True, nack := Some False, responded := Some True\<rparr>)
                 \<and> post_ack (Some k) s1 = (failure 403 ''Already responded!'', s1)
                 \<and> post_nack (Some k) s1 = (failure 403 ''Already responded!'', s1)
                 \<and> ack_post (ack_params k True) s1 = (Inr False, s1))
            \<and> (case post_nack (Some k) s of
               (r1, s1) \<Rightarrow>
                 r1 = success
                 \<and> findOne_blindedutxo k (ds s1)
                     = Some (c\<lparr>nack := Some True, ack := Some False, responded := Some True\<rparr>)
                 \<and> post_nack (Some k) s1 = (failure 403 ''Already responded!'', s1)
                 \<and> post_ack (Some k) s1 = (failure 403 ''Already responded!'', s1)
                 \<and> ack_post (ack_params k False) s1 = (Inr False, s1)))"
proof (intro conjI impI)
  assume "truthy (responded c)"
  with assms show "post_ack (Some k) s = (failure 403 ''Already responded!'', s)"
    and "post_nack (Some k) s = (failure 403 ''Already responded!'', s)"
    by (simp_all add: post_ack_responded)
next
  assume fresh: "\<not> truthy (responded c)"
  from assms(2) have key: "blindedutxo c = k"
    by (rule findOne_blindedutxo_key)
  let ?a = "c\<lparr>ack := Some True, nack := Some False, responded := Some True\<rparr>"
  let ?sa = "s\<lparr>ds := update_blindedutxo k
                  (\<lambda>c. c\<lparr>ack := Some True, nack := Some False, responded := Some True\<rparr>)
                  (ds s)\<rparr>"
  have fa: "findOne_blindedutxo k (ds ?sa) = Some ?a"
    using assms(2) key by (simp add: findOne_update_same)
  have ra: "truthy (responded ?a)" and aa: "ack ?a = Some True"
    by (simp_all add: truthy_def)
  show "case post_ack (Some k) s of
          (r1, s1) \<Rightarrow>
            r1 = success
            \<and> findOne_blindedutxo k (ds s1) = Some ?a
            \<and> post_ack (Some k) s1 = (failure 403 ''Already responded!'', s1)
            \<and> post_nack (Some k) s1 = (failure 403 ''Already responded!'', s1)
            \<and> ack_post (ack_params k True) s1 = (Inr False, s1)"
    using fa
    by (simp only: post_ack_fresh(1) [OF assms fresh] prod.case
        post_ack_responded [OF assms(1) fa ra] ack_post_same_value [OF assms(1) fa aa])
  let ?n = "c\<lparr>nack := Some True, ack := Some False, responded := Some True\<rparr>"
  let ?sn = "s\<lparr>ds := update_blindedutxo k
                  (\<lambda>c. c\<lparr>nack := Some True, ack := Some False, responded := Some True\<rparr>)
                  (ds s)\<rparr>"
  have fn: "findOne_blindedutxo k (ds ?sn) = Some ?n"
    using assms(2) key by (simp add: findOne_update_same)
  have rn: "truthy (responded ?n)" and an: "ack ?n = Some False"
    by (simp_all add: truthy_def)
  show "case post_nack (Some k) s of
          (r1, s1) \<Rightarrow>
            r1 = success
            \<and> findOne_blindedutxo k (ds s1) = Some ?n
            \<and> post_nack (Some k) s1 = (failure 403 ''Already responded!'', s1)
            \<and> post_ack (Some k) s1 = (failure 403 ''Already responded!'', s1)
            \<and> ack_post (ack_params k False) s1 = (Inr False, s1)"
    using fn
    by (simp only: post_ack_fresh(2) [OF assms fresh] prod.case
        post_ack_responded [OF assms(1) fn rn] ack_post_same_value [OF assms(1) fn an])
qed

section \<open>The acknowledgment across the entry points\<close>

text \<open>
  A record that has an acknowledgment and the \<open>responded\<close> flag keeps both: no call of
  \<^verbatim>\<open>ack.post\<close>, \<^verbatim>\<open>POST /ack\<close> or \<^verbatim>\<open>POST /nack\<close>, whatever its parameters, changes the record.
\<close>

lemma update_other_record:
  assumes "findOne_blindedutxo k docs = Some c" and "findOne_blindedutxo k' docs = Some c'"
    and "c' \<noteq> c" and "\<And>x. blindedutxo (f x) = blindedutxo x"
  shows "findOne_blindedutxo k (update_blindedutxo k' f docs) = Some c"
proof -
  have "k' \<noteq> k \<or> c' = c"
    using assms(1,2) by auto
  with assms(3) have "k \<noteq> k'" by auto
  then show ?thesis
    using assms(1,4) by (simp add: findOne_update_other)
qed

lemma ack_kept_when_responded_set:
  assumes "findOne_blindedutxo k (ds s) = Some c" and "ack c = Some a"
    and "truthy (responded c)"
  shows "findOne_blindedutxo k (ds (snd (ack_post p s))) = Some c"
    and "findOne_blindedutxo k (ds (snd (post_ack body_blindedutxo s))) = Some c"
    and "findOne_blindedutxo k (ds (snd (post_nack body_blindedutxo s))) = Some c"
proof -
  show "findOne_blindedutxo k (ds (snd (ack_post p s))) = Some c"
  proof (cases "getConsignment p s")
    case (Inl e)
    with assms(1) show ?thesis by (simp add: ack_post_def)
  next
    case (Inr c')
    then obtain k' where found: "findOne_blindedutxo k' (ds s) = Some c'"
      by (auto simp: getConsignment_def split: sum.splits option.splits)
    then have key: "blindedutxo c' = k'"
      by (rule findOne_blindedutxo_key)
    show ?thesis
    proof (cases "ack c' = None \<and> (\<exists>v. getAckParam p = Inr v)")
      case True
      with assms(2) have "c' \<noteq> c" by auto
      with assms(1) found have
        "findOne_blindedutxo k (update_blindedutxo k' (\<lambda>c. c\<lparr>ack := Some v\<rparr>) (ds s)) = Some c" for v
        by (intro update_other_record) simp_all
      with True Inr key show ?thesis
        by (auto simp: ack_post_def)
    next
      case False
      with Inr assms(1) show ?thesis
        by (auto simp: ack_post_def split: sum.splits option.splits)
    qed
  qed
next
  have legacy: "findOne_blindedutxo k (update_blindedutxo k' f (ds s)) = Some c"
    if "findOne_blindedutxo k' (ds s) = Some c'" and "\<not> truthy (responded c')"
      and "\<And>x. blindedutxo (f x) = blindedutxo x" for k' c' f
  proof -
    from that(2) assms(3) have "c' \<noteq> c" by auto
    with assms(1) that(1,3) show ?thesis
      by (intro update_other_record) simp_all
  qed
  show "findOne_blindedutxo k (ds (snd (post_ack body_blindedutxo s))) = Some c"
    using assms(1) by (auto simp: post_ack_def legacy split: option.splits)
  show "findOne_blindedutxo k (ds (snd (post_nack body_blindedutxo s))) = Some c"
    using assms(1) by (auto simp: post_nack_def legacy split: option.splits)
qed

text \<open>
  Claim C1 says that no sequence of operations changes an acknowledgment, once recorded, to
  the other value. The code does not keep it: \<^verbatim>\<open>ack.post\<close> records the value without setting
  \<open>responded\<close>, and the legacy routes test \<open>responded\<close> only. On a fresh consignment,
  \<^verbatim>\<open>ack.post\<close> with true followed by \<^verbatim>\<open>POST /nack\<close> ends with the acknowledgment false, and
  \<^verbatim>\<open>ack.post\<close> with false followed by \<^verbatim>\<open>POST /ack\<close> ends with it true; all calls succeed.
\<close>

theorem ack_post_then_legacy_route_flips_ack:
  "(case post_json_rpc JSON_parse hash v u (request ''consignment.post'' (key_params ''k1'') i)
           (Some (n, b)) empty_store of
      (r0, s0) \<Rightarrow>
        (case post_json_rpc JSON_parse hash v u (request ''ack.post'' (ack_params ''k1'' True) i) None s0 of
           (r1, s1) \<Rightarrow>
             (case post_nack (Some ''k1'') s1 of
                (r2, s2) \<Rightarrow>
                  r0 = JsonResult (BoolResult True)
                  \<and> r1 = JsonResult (BoolResult True)
                  \<and> fst (post_json_rpc JSON_parse hash v u (request ''ack.get'' (key_params ''k1'') i) None s1)
                      = JsonResult (AckResult (Some True))
                  \<and> r2 = success
                  \<and> fst (post_json_rpc JSON_parse hash v u (request ''ack.get'' (key_params ''k1'') i) None s2)
                      = JsonResult (AckResult (Some False)))))
   \<and> (case post_json_rpc JSON_parse hash v u (request ''consignment.post'' (key_params ''k1'') i)
           (Some (n, b)) empty_store of
      (r0, s0) \<Rightarrow>
        (case post_json_rpc JSON_parse hash v u (request ''ack.post'' (ack_params ''k1'' False) i) None s0 of
           (r1, s1) \<Rightarrow>
             (case post_ack (Some ''k1'') s1 of
                (r2, s2) \<Rightarrow>
                  r0 = JsonResult (BoolResult True)
                  \<and> r1 = JsonResult (BoolResult True)
                  \<and> fst (post_json_rpc JSON_parse hash v u (request ''ack.get'' (key_params ''k1'') i) None s1)
                      = JsonResult (AckResult (Some False))
                  \<and> r2 = success
                  \<and> fst (post_json_rpc JSON_parse hash v u (request ''ack.get'' (key_params ''k1'') i) None s2)
                      = JsonResult (AckResult (Some True)))))"
  by (simp add: route_simps example_simps)

text \<open>
  Claim C2 says that \<open>responded\<close> is set exactly when \<open>ack\<close> is, and \<open>nack\<close> is true exactly
  when \<open>ack\<close> is false, after every operation. \<^verbatim>\<open>ack.post\<close> breaks it: after it has recorded
  false on a fresh consignment, the record has neither \<open>responded\<close> nor \<open>nack\<close>, and
  \<^verbatim>\<open>GET /ack/k1\<close> reports \<open>ack\<close> and \<open>nack\<close> both false. The legacy route \<^verbatim>\<open>POST /nack\<close>
  sets all three fields.
\<close>

theorem ack_post_leaves_legacy_fields_unset:
  "(case post_json_rpc JSON_parse hash v u (request ''consignment.post'' (key_params ''k1'') i)
           (Some (n, b)) empty_store of
      (r0, s0) \<Rightarrow>
        (case post_json_rpc JSON_parse hash v u (request ''ack.post'' (ack_params ''k1'' False) i) None s0 of
           (r1, s1) \<Rightarrow>
             r0 = JsonResult (BoolResult True)
             \<and> r1 = JsonResult (BoolResult True)
             \<and> findOne_blindedutxo ''k1'' (ds s1)
                 = Some \<lparr>filename = hash b, blindedutxo = ''k1'', ack = Some False,
                         nack = None, responded = None\<rparr>
             \<and> get_ack ''k1'' s1
                 = (\<lparr>status = 200,
                     body = [(''success'', JBool True), (''ack'', JBool False),
                             (''nack'', JBool False)]\<rparr>, s1)
             \<and> fst (post_json_rpc JSON_parse hash v u (request ''ack.get'' (key_params ''k1'') i) None s1)
                 = JsonResult (AckResult (Some False))))
   \<and> (case post_consignment hash (Some ''k1'') (Some (n, b)) empty_store of
      (r0, s0) \<Rightarrow>
        (case post_nack (Some ''k1'') s0 of
           (r1, s1) \<Rightarrow>
             r0 = success \<and> r1 = success
             \<and> findOne_blindedutxo ''k1'' (ds s1)
                 = Some \<lparr>filename = hash b, blindedutxo = ''k1'', ack = Some False,
                         nack = Some True, responded = Some True\<rparr>
             \<and> get_ack ''k1'' s1
                 = (\<lparr>status = 200,
                     body = [(''success'', JBool True), (''ack'', JBool False),
                             (''nack'', JBool True)]\<rparr>, s1)))"
  by (simp add: route_simps example_simps)

text \<open>
  Claim C6 says that \<^verbatim>\<open>POST /ack\<close> and \<^verbatim>\<open>POST /nack\<close> require the consignment to be undecided
  and fail with status 403 and "Already responded!" on a decided one, also when the call
  repeats the recorded value. The routes test the \<open>responded\<close> flag, which \<^verbatim>\<open>ack.post\<close> does
  not set: on a consignment that \<^verbatim>\<open>ack.post\<close> has decided, either legacy route answers with
  status 200, the one that repeats the value as well as the other one, while \<^verbatim>\<open>ack.post\<close>
  with the recorded value returns false.
\<close>

theorem legacy_route_accepts_record_decided_by_ack_post:
  "(case post_json_rpc JSON_parse hash v u (request ''consignment.post'' (key_params ''k1'') i)
           (Some (n, b)) empty_store of
      (r0, s0) \<Rightarrow>
        (case post_json_rpc JSON_parse hash v u (request ''ack.post'' (ack_params ''k1'' True) i) None s0 of
           (r1, s1) \<Rightarrow>
             r0 = JsonResult (BoolResult True)
             \<and> r1 = JsonResult (BoolResult True)
             \<and> map_option ack (findOne_blindedutxo ''k1'' (ds s1)) = Some (Some True)
             \<and> fst (post_ack (Some ''k1'') s1) = success
             \<and> fst (post_nack (Some ''k1'') s1) = success
             \<and> ack_post (ack_params ''k1'' True) s1 = (Inr False, s1)))
   \<and> (case post_json_rpc JSON_parse hash v u (request ''consignment.post'' (key_params ''k1'') i)
           (Some (n, b)) empty_store of
      (r0, s0) \<Rightarrow>
        (case post_json_rpc JSON_parse hash v u (request ''ack.post'' (ack_params ''k1'' False) i) None s0 of
           (r1, s1) \<Rightarrow>
             r0 = JsonResult (BoolResult True)
             \<and> r1 = JsonResult (BoolResult True)
             \<and> map_option ack (findOne_blindedutxo ''k1'' (ds s1)) = Some (Some False)
             \<and> fst (post_nack (Some ''k1'') s1) = success
             \<and> fst (post_ack (Some ''k1'') s1) = success
             \<and> ack_post (ack_params ''k1'' False) s1 = (Inr False, s1)))
   \<and> status success = 200
   \<and> success \<noteq> failure 403 ''Already responded!''"
  by (simp add: route_simps example_simps success_def failure_def)

section \<open>Staged files\<close>

text \<open>
  On the JSON-RPC route a request whose parameters get through the first lines of the handler
  never leaves its staged file behind: the last step of the route removes the file if the
  method has not. A request on which those lines throw gets no answer, and its file stays.
\<close>

lemma json_rpc_leaves_no_staged_file:
  assumes "parse_and_log_params JSON_parse (params req) = Inr p"
  shows "tempDir (snd (post_json_rpc JSON_parse hash v u req (Some (n, b)) s)) n = None"
  using assms
  by (simp add: post_json_rpc_def upload_single_def tempDir_unlink_unhandled split: prod.splits)

lemma json_rpc_keeps_staged_file_when_thrown:
  assumes "parse_and_log_params JSON_parse (params req) = Inl e"
  shows "post_json_rpc JSON_parse hash v u req (Some (n, b)) s
           = (NoResponse, s\<lparr>tempDir := (tempDir s)(n \<mapsto> b)\<rparr>)"
  using assms by (simp add: post_json_rpc_def upload_single_def)

text \<open>
  Two kinds of parameters on which the first lines throw: a string that \<^verbatim>\<open>JSON.parse\<close>
  rejects, and a dictionary with an entry that cannot be written to the log. The third fact
  is such a request with a file, on the empty store.
\<close>

lemma unparsable_or_unprintable_params_throw:
  "JSON_parse t = None \<Longrightarrow> parse_and_log_params JSON_parse (Some (JString t)) = Inl SyntaxError"
  "parse_and_log_params JSON_parse
     (Some (JObject [(''blinded_utxo'', JString k), (''x'', JObject [(''toString'', JNumber 1)])]))
   = Inl TypeError"
  "post_json_rpc example_parse base64 ''0.2.1'' 0
     (request ''consignment.post'' (Some (JString ''{'')) (JNumber 1))
     (Some (''upload1'', [104, 105])) empty_store
   = (NoResponse, empty_store\<lparr>tempDir := [''upload1'' \<mapsto> [104, 105]]\<rparr>)"
  by (simp_all add: parse_and_log_params_def log_params_def joinEntries_throws_def
      post_json_rpc_def upload_single_def request_def example_parse_def empty_store_def)

text \<open>
  Claim C7 says that on every surface a failure after staging removes the staged file before
  the error is returned, and that the no-op on duplicate content discards it. The REST upload
  routes do not do it: they return early, with the staged file still in place, when the key
  field is missing (status 400), when the same content is uploaded again (status 200) and when
  the content conflicts with the stored one (status 403). The last line is the JSON-RPC route
  on the conflicting upload, which removes the file.
\<close>

theorem rest_upload_keeps_staged_file:
  "(case post_consignment hash None (Some (n, b)) s of
      (r, s') \<Rightarrow> r = failure 400 ''blindedutxo missing!'' \<and> tempDir s' n = Some b)
   \<and> (case post_media hash None (Some (n, b)) s of
      (r, s') \<Rightarrow> r = failure 400 ''attachment_id missing!'' \<and> tempDir s' n = Some b)
   \<and> (case post_consignment hash (Some ''k1'') (Some (n, b)) empty_store of
      (r1, s1) \<Rightarrow>
        (case post_consignment hash (Some ''k1'') (Some (n', b)) s1 of
           (r2, s2) \<Rightarrow> r1 = success \<and> r2 = success \<and> tempDir s2 n' = Some b))
   \<and> (case post_consignment base64 (Some ''k1'') (Some (n, [104, 106])) example_store of
      (r, s') \<Rightarrow>
        r = failure 403 ''Cannot change uploaded file!'' \<and> tempDir s' n = Some [104, 106])
   \<and> (case post_media base64 (Some ''m1'') (Some (n, [104, 106])) example_store of
      (r, s') \<Rightarrow>
        r = failure 403 ''Cannot change uploaded file!'' \<and> tempDir s' n = Some [104, 106])
   \<and> (case post_json_rpc JSON_parse base64 v u (request ''consignment.post'' (key_params ''k1'') i)
           (Some (n, [104, 106])) example_store of
      (r, s') \<Rightarrow> r = JsonError CannotChangeUploadedFile \<and> tempDir s' n = None)"
proof -
  have differ: "base64 [104, 105] \<noteq> base64 [104, 106]"
  proof
    assume "base64 [104, 105] = base64 [104, 106]"
    then have "base64_decode (base64 [104, 105]) = base64_decode (base64 [104, 106])"
      by simp
    then show False
      by (simp only: base64_decode_base64) simp
  qed
  have c: "findOne_blindedutxo ''k1'' (ds example_store)
             = Some (new_consignment (base64 [104, 105]) ''k1'')"
    and m: "findOne_attachment_id ''m1'' (ds example_store)
             = Some (new_media (base64 [104, 105]) ''m1'')"
    by (simp_all add: example_simps)
  have "filename (new_consignment (base64 [104, 105]) ''k1'') \<noteq> base64 [104, 106]"
    and "media_filename (new_media (base64 [104, 105]) ''m1'') \<noteq> base64 [104, 106]"
    using differ by (simp_all add: new_consignment_def new_media_def)
  then have conflicts:
    "post_consignment base64 (Some ''k1'') (Some (n, [104, 106])) example_store
       = (failure 403 ''Cannot change uploaded file!'',
          example_store\<lparr>tempDir := (tempDir example_store)(n \<mapsto> [104, 106])\<rparr>)"
    "post_media base64 (Some ''m1'') (Some (n, [104, 106])) example_store
       = (failure 403 ''Cannot change uploaded file!'',
          example_store\<lparr>tempDir := (tempDir example_store)(n \<mapsto> [104, 106])\<rparr>)"
    "post_json_rpc JSON_parse base64 v u (request ''consignment.post'' (key_params ''k1'') i)
         (Some (n, [104, 106])) example_store
       = (JsonError CannotChangeUploadedFile,
          example_store\<lparr>tempDir := (tempDir example_store)(n := None)\<rparr>)"
    using c m example_params(1) well_formed_params_pass(1)
    by (simp_all add: rest_consignment_conflict rest_media_conflict
        rpc_consignment_post_conflict)
  have early:
    "post_consignment hash None (Some (n, b)) s
       = (failure 400 ''blindedutxo missing!'', s\<lparr>tempDir := (tempDir s)(n \<mapsto> b)\<rparr>)"
    "post_media hash None (Some (n, b)) s
       = (failure 400 ''attachment_id missing!'', s\<lparr>tempDir := (tempDir s)(n \<mapsto> b)\<rparr>)"
    by (simp_all add: route_simps)
  have twice:
    "case post_consignment hash (Some ''k1'') (Some (n, b)) empty_store of
      (r1, s1) \<Rightarrow>
        (case post_consignment hash (Some ''k1'') (Some (n', b)) s1 of
           (r2, s2) \<Rightarrow> r1 = success \<and> r2 = success \<and> tempDir s2 n' = Some b)"
    by (simp add: route_simps example_simps)
  show ?thesis
    using twice by (simp add: conflicts early)
qed

end
